theory Spec2Isabelle
  imports Main "HOL-Library.Word"
begin

section \<open>Shared models (shared/models/models.go)\<close>

text \<open>
  Go's \<open>int64\<close> and \<open>int\<close> (on a 64-bit platform) are 64-bit words: \<open>+\<close> and \<open>-\<close>
  wrap around, and the comparisons of the source are the signed ones (\<open><s\<close>, \<open>\<le>s\<close>).
  Identifiers and currencies are Go strings. Instants of \<open>time.Time\<close> are integers.
  An \<open>error\<close> is the message it prints.

  Record fields keep the source's field names behind a prefix that names the struct
  (\<open>w_Balance\<close> is \<open>Wallet.Balance\<close>), since Isabelle's field names are global.
\<close>

type_synonym int64 = "64 word"
type_synonym ID = string
type_synonym Time = int
type_synonym error = string

text \<open>
  \<open>uuid.New()\<close> and \<open>time.Now()\<close> read the outside world. The model threads a
  \<open>Sys\<close> value through every call: the two sources are arbitrary functions of a
  position, and each read advances the position by one.
\<close>

record Sys =
  uuids :: "nat \<Rightarrow> ID"
  uuid_pos :: nat
  clock :: "nat \<Rightarrow> Time"
  clock_pos :: nat

definition GenerateUUID :: "Sys \<Rightarrow> ID \<times> Sys" where
  "GenerateUUID s = (uuids s (uuid_pos s), s\<lparr>uuid_pos := uuid_pos s + 1\<rparr>)"

definition time_Now :: "Sys \<Rightarrow> Time \<times> Sys" where
  "time_Now s = (clock s (clock_pos s), s\<lparr>clock_pos := clock_pos s + 1\<rparr>)"

record Timestamps =
  CreatedAt :: Time
  UpdatedAt :: Time
  DeletedAt :: "Time option"

definition NewTimestamps :: "Sys \<Rightarrow> Timestamps \<times> Sys" where
  "NewTimestamps s =
     (let (now, s1) = time_Now s
      in (\<lparr>CreatedAt = now, UpdatedAt = now, DeletedAt = None\<rparr>, s1))"

definition Timestamps_Update :: "Sys \<Rightarrow> Timestamps \<Rightarrow> Timestamps \<times> Sys" where
  "Timestamps_Update s t =
     (let (now, s1) = time_Now s in (t\<lparr>UpdatedAt := now\<rparr>, s1))"

record Version =
  Value :: int64

definition NewVersion :: Version where
  "NewVersion = \<lparr>Value = 1\<rparr>"

definition Version_Update :: "Version \<Rightarrow> Version" where
  "Version_Update v = v\<lparr>Value := Value v + 1\<rparr>"

record Money =
  Amount :: int64
  Currency :: string

definition NewMoney :: "int64 \<Rightarrow> string \<Rightarrow> Money" where
  "NewMoney amount currency = \<lparr>Amount = amount, Currency = currency\<rparr>"

definition IsPositive :: "Money \<Rightarrow> bool" where
  "IsPositive m = (0 <s Amount m)"

text \<open>\<open>Add\<close> and \<open>Subtract\<close> return a pair in Go: the value and the error (or nil).\<close>

definition Money_Add :: "Money \<Rightarrow> Money \<Rightarrow> Money \<times> error option" where
  "Money_Add m other =
     (if Currency m \<noteq> Currency other
      then (\<lparr>Amount = 0, Currency = ''''\<rparr>, Some ''currency mismatch'')
      else (\<lparr>Amount = Amount m + Amount other, Currency = Currency m\<rparr>, None))"

definition Money_Subtract :: "Money \<Rightarrow> Money \<Rightarrow> Money \<times> error option" where
  "Money_Subtract m other =
     (if Currency m \<noteq> Currency other
      then (\<lparr>Amount = 0, Currency = ''''\<rparr>, Some ''currency mismatch'')
      else (\<lparr>Amount = Amount m - Amount other, Currency = Currency m\<rparr>, None))"

section \<open>Domain events (shared/events/events.go)\<close>

text \<open>
  \<open>Event.Data\<close> is an \<open>interface{}\<close>; the payload structs that the modelled code
  stores there are the constructors of \<open>EventData\<close>, with the fields of each struct as
  selectors. \<open>Event.Metadata\<close> is a map from strings; the modelled code stores
  strings only.
\<close>

datatype EventData =
    InsufficientFundsData (ifd_WalletID: ID) (ifd_UserID: ID) (ifd_PaymentID: ID)
      (ifd_RequestedAmount: Money) (ifd_AvailableBalance: Money) (ifd_Shortfall: Money)
  | WalletDebitedData (wdd_WalletID: ID) (wdd_UserID: ID) (wdd_PaymentID: ID)
      (wdd_TransactionID: ID) (wdd_Amount: Money) (wdd_BalanceBefore: Money)
      (wdd_BalanceAfter: Money) (wdd_Reference: string)
  | WalletCreditedData (wcd_WalletID: ID) (wcd_UserID: ID) (wcd_TransactionID: ID)
      (wcd_Amount: Money) (wcd_BalanceBefore: Money) (wcd_BalanceAfter: Money)
      (wcd_Reference: string)
  | WalletFrozenData (wfd_WalletID: ID) (wfd_UserID: ID)
  | WalletUnfrozenData (wud_WalletID: ID) (wud_UserID: ID)
  | PaymentProcessingData (ppd_PaymentID: ID) (ppd_UserID: ID)
  | PaymentCompletedData (pcd_PaymentID: ID) (pcd_UserID: ID) (pcd_Amount: Money)
      (pcd_GatewayTransactionID: string) (pcd_TransactionID: string) (pcd_CompletedAt: Time)
  | PaymentFailedData (pfd_PaymentID: ID) (pfd_UserID: ID) (pfd_Amount: Money)
      (pfd_Reason: string) (pfd_ErrorCode: string) (pfd_FailedAt: Time)
  | PaymentCancelledData (pxd_PaymentID: ID) (pxd_UserID: ID) (pxd_CancelledAt: Time)
  | PaymentOperationCreatedData (pocd_OperationID: ID) (pocd_PaymentID: ID) (pocd_Type: string)
      (pocd_Amount: Money) (pocd_Provider: string)
  | WalletDebitRequestedData (wdr_PaymentID: ID) (wdr_WalletID: string) (wdr_UserID: ID)
      (wdr_Amount: Money) (wdr_Reference: string)

record Event =
  e_ID :: ID
  e_AggregateID :: ID
  e_EventType :: string
  e_Version :: string
  e_Data :: EventData
  e_Metadata :: "string \<rightharpoonup> string"
  e_Timestamp :: Time
  e_CorrelationID :: ID

definition NewEvent :: "Sys \<Rightarrow> ID \<Rightarrow> string \<Rightarrow> EventData \<Rightarrow> Event \<times> Sys" where
  "NewEvent s aggregateID eventType data =
     (let (uid, s1) = GenerateUUID s;
          (now, s2) = time_Now s1
      in (\<lparr>e_ID = uid, e_AggregateID = aggregateID, e_EventType = eventType,
           e_Version = ''1.0'', e_Data = data, e_Metadata = Map.empty,
           e_Timestamp = now, e_CorrelationID = ''''\<rparr>, s2))"

definition WithMetadata :: "Event \<Rightarrow> string \<Rightarrow> string \<Rightarrow> Event" where
  "WithMetadata e key val = e\<lparr>e_Metadata := (e_Metadata e)(key \<mapsto> val)\<rparr>"

abbreviation PaymentProcessingEvent :: string where "PaymentProcessingEvent \<equiv> ''payment.processing''"
abbreviation PaymentCompletedEvent :: string where "PaymentCompletedEvent \<equiv> ''payment.completed''"
abbreviation PaymentFailedEvent :: string where "PaymentFailedEvent \<equiv> ''payment.failed''"
abbreviation PaymentCancelledEvent :: string where "PaymentCancelledEvent \<equiv> ''payment.cancelled''"
abbreviation PaymentInconsistentStateEvent :: string where
  "PaymentInconsistentStateEvent \<equiv> ''payment.inconsistent.state''"
abbreviation PaymentOperationCreatedEvent :: string where
  "PaymentOperationCreatedEvent \<equiv> ''payment.operation.created''"
abbreviation WalletDebitRequestedEvent :: string where
  "WalletDebitRequestedEvent \<equiv> ''wallet.debit.requested''"
abbreviation WalletDebitedEvent :: string where "WalletDebitedEvent \<equiv> ''wallet.debited''"
abbreviation WalletCreditedEvent :: string where "WalletCreditedEvent \<equiv> ''wallet.credited''"
abbreviation InsufficientFundsEvent :: string where
  "InsufficientFundsEvent \<equiv> ''wallet.insufficient.funds''"
abbreviation WalletFrozenEvent :: string where "WalletFrozenEvent \<equiv> ''wallet.frozen''"
abbreviation WalletUnfrozenEvent :: string where "WalletUnfrozenEvent \<equiv> ''wallet.unfrozen''"

section \<open>Wallet aggregate (wallet-service domain)\<close>

text \<open>
  \<open>WalletStatus\<close> and \<open>TransactionType\<close> are string types in the source, with named
  constants. A method on \<open>*Wallet\<close> takes the wallet and returns it, updated, next to
  its result.
\<close>

abbreviation WalletStatusActive :: string where "WalletStatusActive \<equiv> ''active''"
abbreviation WalletStatusFrozen :: string where "WalletStatusFrozen \<equiv> ''frozen''"
abbreviation WalletStatusClosed :: string where "WalletStatusClosed \<equiv> ''closed''"

abbreviation TransactionTypeDebit :: string where "TransactionTypeDebit \<equiv> ''debit''"
abbreviation TransactionTypeCredit :: string where "TransactionTypeCredit \<equiv> ''credit''"

record Wallet =
  w_ID :: ID
  w_UserID :: ID
  w_Balance :: Money
  w_Status :: string
  w_Timestamps :: Timestamps
  w_Version :: Version
  w_events :: "Event list"

record Transaction =
  t_ID :: ID
  t_WalletID :: ID
  t_Type :: string
  t_Amount :: Money
  t_BalanceBefore :: Money
  t_BalanceAfter :: Money
  t_Reference :: string
  t_PaymentID :: "ID option"
  t_Timestamps :: Timestamps

definition Wallet_recordEvent :: "Wallet \<Rightarrow> Event \<Rightarrow> Wallet" where
  "Wallet_recordEvent w event = w\<lparr>w_events := w_events w @ [event]\<rparr>"

definition Debit ::
  "Sys \<Rightarrow> Wallet \<Rightarrow> Money \<Rightarrow> ID \<Rightarrow> string \<Rightarrow> (error + Transaction) \<times> Wallet \<times> Sys" where
  "Debit s w amount paymentID reference =
     (if w_Status w \<noteq> WalletStatusActive then (Inl ''wallet is not active'', w, s)
      else if Currency amount \<noteq> Currency (w_Balance w) then (Inl ''currency mismatch'', w, s)
      else if \<not> IsPositive amount then (Inl ''debit amount must be positive'', w, s)
      else if Amount (w_Balance w) <s Amount amount then
        (let (event, s1) = NewEvent s (w_ID w) InsufficientFundsEvent
               (InsufficientFundsData (w_ID w) (w_UserID w) paymentID amount (w_Balance w)
                  (NewMoney (Amount amount - Amount (w_Balance w)) (Currency amount)))
         in (Inl ''insufficient funds'', Wallet_recordEvent w event, s1))
      else
        (let (tid, s1) = GenerateUUID s;
             (ts, s2) = NewTimestamps s1;
             transaction = \<lparr>t_ID = tid, t_WalletID = w_ID w, t_Type = TransactionTypeDebit,
               t_Amount = amount, t_BalanceBefore = w_Balance w,
               t_BalanceAfter = \<lparr>Amount = 0, Currency = ''''\<rparr>, t_Reference = reference,
               t_PaymentID = Some paymentID, t_Timestamps = ts\<rparr>;
             newBalance = fst (Money_Subtract (w_Balance w) amount);
             w1 = w\<lparr>w_Balance := newBalance\<rparr>;
             transaction1 = transaction\<lparr>t_BalanceAfter := w_Balance w1\<rparr>;
             (wts, s3) = Timestamps_Update s2 (w_Timestamps w1);
             w2 = w1\<lparr>w_Timestamps := wts\<rparr>;
             w3 = w2\<lparr>w_Version := Version_Update (w_Version w2)\<rparr>;
             (debitEvent, s4) = NewEvent s3 (w_ID w3) WalletDebitedEvent
               (WalletDebitedData (w_ID w3) (w_UserID w3) paymentID (t_ID transaction1) amount
                  (t_BalanceBefore transaction1) (t_BalanceAfter transaction1) reference)
         in (Inr transaction1, Wallet_recordEvent w3 debitEvent, s4)))"

definition Credit ::
  "Sys \<Rightarrow> Wallet \<Rightarrow> Money \<Rightarrow> string \<Rightarrow> ID option \<Rightarrow> (error + Transaction) \<times> Wallet \<times> Sys" where
  "Credit s w amount reference paymentID =
     (if w_Status w = WalletStatusClosed then (Inl ''wallet is closed'', w, s)
      else if Currency amount \<noteq> Currency (w_Balance w) then (Inl ''currency mismatch'', w, s)
      else if \<not> IsPositive amount then (Inl ''credit amount must be positive'', w, s)
      else
        (let (tid, s1) = GenerateUUID s;
             (ts, s2) = NewTimestamps s1;
             transaction = \<lparr>t_ID = tid, t_WalletID = w_ID w, t_Type = TransactionTypeCredit,
               t_Amount = amount, t_BalanceBefore = w_Balance w,
               t_BalanceAfter = \<lparr>Amount = 0, Currency = ''''\<rparr>, t_Reference = reference,
               t_PaymentID = paymentID, t_Timestamps = ts\<rparr>;
             newBalance = fst (Money_Add (w_Balance w) amount);
             w1 = w\<lparr>w_Balance := newBalance\<rparr>;
             transaction1 = transaction\<lparr>t_BalanceAfter := w_Balance w1\<rparr>;
             (wts, s3) = Timestamps_Update s2 (w_Timestamps w1);
             w2 = w1\<lparr>w_Timestamps := wts\<rparr>;
             w3 = w2\<lparr>w_Version := Version_Update (w_Version w2)\<rparr>;
             (creditEvent, s4) = NewEvent s3 (w_ID w3) WalletCreditedEvent
               (WalletCreditedData (w_ID w3) (w_UserID w3) (t_ID transaction1) amount
                  (t_BalanceBefore transaction1) (t_BalanceAfter transaction1) reference);
             creditEvent1 = (case paymentID of
                 None \<Rightarrow> creditEvent
               | Some pid \<Rightarrow> WithMetadata creditEvent ''payment_id'' pid)
         in (Inr transaction1, Wallet_recordEvent w3 creditEvent1, s4)))"

definition Freeze :: "Sys \<Rightarrow> Wallet \<Rightarrow> error option \<times> Wallet \<times> Sys" where
  "Freeze s w =
     (if w_Status w = WalletStatusClosed then (Some ''cannot freeze a closed wallet'', w, s)
      else
        (let w1 = w\<lparr>w_Status := WalletStatusFrozen\<rparr>;
             (wts, s1) = Timestamps_Update s (w_Timestamps w1);
             w2 = w1\<lparr>w_Timestamps := wts\<rparr>;
             w3 = w2\<lparr>w_Version := Version_Update (w_Version w2)\<rparr>;
             (event, s2) = NewEvent s1 (w_ID w3) WalletFrozenEvent
               (WalletFrozenData (w_ID w3) (w_UserID w3))
         in (None, Wallet_recordEvent w3 event, s2)))"

definition Unfreeze :: "Sys \<Rightarrow> Wallet \<Rightarrow> error option \<times> Wallet \<times> Sys" where
  "Unfreeze s w =
     (if w_Status w \<noteq> WalletStatusFrozen then (Some ''wallet is not frozen'', w, s)
      else
        (let w1 = w\<lparr>w_Status := WalletStatusActive\<rparr>;
             (wts, s1) = Timestamps_Update s (w_Timestamps w1);
             w2 = w1\<lparr>w_Timestamps := wts\<rparr>;
             w3 = w2\<lparr>w_Version := Version_Update (w_Version w2)\<rparr>;
             (event, s2) = NewEvent s1 (w_ID w3) WalletUnfrozenEvent
               (WalletUnfrozenData (w_ID w3) (w_UserID w3))
         in (None, Wallet_recordEvent w3 event, s2)))"

definition CanDebit :: "Wallet \<Rightarrow> Money \<Rightarrow> bool \<times> Wallet" where
  "CanDebit w amount =
     (w_Status w = WalletStatusActive \<and>
      Currency (w_Balance w) = Currency amount \<and>
      Amount amount \<le>s Amount (w_Balance w), w)"

section \<open>Runs of wallet operations\<close>

text \<open>
  Sequences of wallet operations. A failed operation returns its error to the caller
  and the wallet stays as the method left it; the next operation runs on that wallet.
\<close>

datatype WalletOp =
    OpDebit Money ID string
  | OpCredit Money string "ID option"
  | OpFreeze
  | OpUnfreeze

fun apply_op :: "Sys \<Rightarrow> Wallet \<Rightarrow> WalletOp \<Rightarrow> Wallet \<times> Sys" where
  "apply_op s w (OpDebit amount paymentID reference) = snd (Debit s w amount paymentID reference)"
| "apply_op s w (OpCredit amount reference paymentID) = snd (Credit s w amount reference paymentID)"
| "apply_op s w OpFreeze = snd (Freeze s w)"
| "apply_op s w OpUnfreeze = snd (Unfreeze s w)"

fun run_ops :: "Sys \<Rightarrow> Wallet \<Rightarrow> WalletOp list \<Rightarrow> Wallet \<times> Sys" where
  "run_ops s w [] = (w, s)"
| "run_ops s w (x # xs) = (case apply_op s w x of (w', s') \<Rightarrow> run_ops s' w' xs)"

text \<open>
  \<open>op_fits\<close>: a credit that is applied keeps \<open>balance + amount\<close> inside \<open>int64\<close>;
  \<open>credits_fit\<close> asks it of every operation of a run, on the wallet that operation meets.
\<close>

fun op_fits :: "Sys \<Rightarrow> Wallet \<Rightarrow> WalletOp \<Rightarrow> bool" where
  "op_fits s w (OpCredit amount reference paymentID) =
     (case fst (Credit s w amount reference paymentID) of
        Inl e \<Rightarrow> True
      | Inr t \<Rightarrow> sint (Amount (w_Balance w)) + sint (Amount amount) < 2 ^ 63)"
| "op_fits s w x = True"

fun credits_fit :: "Sys \<Rightarrow> Wallet \<Rightarrow> WalletOp list \<Rightarrow> bool" where
  "credits_fit s w [] = True"
| "credits_fit s w (x # xs) =
     (op_fits s w x \<and> (case apply_op s w x of (w', s') \<Rightarrow> credits_fit s' w' xs))"

subsection \<open>Concrete inputs\<close>

definition sys0 :: Sys where
  "sys0 = \<lparr>uuids = (\<lambda>n. ''uuid''), uuid_pos = 0, clock = (\<lambda>n. int n), clock_pos = 0\<rparr>"

definition wallet0 :: Wallet where
  "wallet0 = \<lparr>w_ID = ''w1'', w_UserID = ''u1'', w_Balance = NewMoney 1000 ''USD'',
     w_Status = WalletStatusActive,
     w_Timestamps = \<lparr>CreatedAt = 0, UpdatedAt = 0, DeletedAt = None\<rparr>,
     w_Version = NewVersion, w_events = []\<rparr>"

definition wallet_new :: Wallet where
  "wallet_new = wallet0\<lparr>w_Balance := NewMoney 0 ''USD''\<rparr>"

definition ops_overflow :: "WalletOp list" where
  "ops_overflow = [OpCredit (NewMoney 9223372036854775807 ''USD'') ''topup'' None,
                   OpCredit (NewMoney 1 ''USD'') ''topup'' None]"

definition ops0 :: "WalletOp list" where
  "ops0 = [OpCredit (NewMoney 500 ''USD'') ''topup'' None,
           OpDebit (NewMoney 200 ''USD'') ''p1'' ''order'',
           OpFreeze, OpUnfreeze,
           OpDebit (NewMoney 5000 ''USD'') ''p2'' ''order'']"

section \<open>Payment aggregate (payments-service/domain)\<close>

text \<open>
  \<open>PaymentStatus\<close>, \<open>PaymentMethodType\<close>, \<open>PaymentOperationType\<close> and
  \<open>PaymentOperationStatus\<close> are string types with named constants. The embedded
  pointers of \<open>PaymentMethod\<close> are options (\<open>None\<close> is nil).
\<close>

abbreviation PaymentStatusInitiated :: string where "PaymentStatusInitiated \<equiv> ''initiated''"
abbreviation PaymentStatusProcessing :: string where "PaymentStatusProcessing \<equiv> ''processing''"
abbreviation PaymentStatusCompleted :: string where "PaymentStatusCompleted \<equiv> ''completed''"
abbreviation PaymentStatusFailed :: string where "PaymentStatusFailed \<equiv> ''failed''"
abbreviation PaymentStatusCancelled :: string where "PaymentStatusCancelled \<equiv> ''cancelled''"

abbreviation PaymentMethodTypeCreditCard :: string where
  "PaymentMethodTypeCreditCard \<equiv> ''credit_card''"
abbreviation PaymentMethodTypeDebit :: string where "PaymentMethodTypeDebit \<equiv> ''debit''"
abbreviation PaymentMethodTypeWallet :: string where "PaymentMethodTypeWallet \<equiv> ''wallet''"

record WalletPaymentMethod =
  WalletID :: string

record CreditCardPaymentMethod =
  CardToken :: string

record PaymentMethod =
  PaymentMethodType :: string
  pm_WalletPaymentMethod :: "WalletPaymentMethod option"
  pm_CreditCardPaymentMethod :: "CreditCardPaymentMethod option"

record Payment =
  p_ID :: ID
  p_UserID :: ID
  p_Amount :: Money
  p_PaymentMethod :: PaymentMethod
  p_Description :: string
  p_Status :: string
  p_Timestamps :: Timestamps
  p_Version :: Version
  p_events :: "Event list"

definition Payment_recordEvent :: "Payment \<Rightarrow> Event \<Rightarrow> Payment" where
  "Payment_recordEvent p event = p\<lparr>p_events := p_events p @ [event]\<rparr>"

definition Payment_Events :: "Payment \<Rightarrow> Event list" where
  "Payment_Events p = p_events p"

definition Payment_ClearEvents :: "Payment \<Rightarrow> Payment" where
  "Payment_ClearEvents p = p\<lparr>p_events := []\<rparr>"

definition Process :: "Sys \<Rightarrow> Payment \<Rightarrow> error option \<times> Payment \<times> Sys" where
  "Process s p =
     (if p_Status p \<noteq> PaymentStatusInitiated
      then (Some ''payment can only be processed from initiated status'', p, s)
      else
        (let p1 = p\<lparr>p_Status := PaymentStatusProcessing\<rparr>;
             (ts, s1) = Timestamps_Update s (p_Timestamps p1);
             p2 = p1\<lparr>p_Timestamps := ts\<rparr>;
             p3 = p2\<lparr>p_Version := Version_Update (p_Version p2)\<rparr>;
             (event, s2) = NewEvent s1 (p_ID p3) PaymentProcessingEvent
               (PaymentProcessingData (p_ID p3) (p_UserID p3))
         in (None, Payment_recordEvent p3 event, s2)))"

definition Complete :: "Sys \<Rightarrow> Payment \<Rightarrow> string \<Rightarrow> string \<Rightarrow> error option \<times> Payment \<times> Sys" where
  "Complete s p gatewayTransactionID transactionID =
     (if p_Status p \<noteq> PaymentStatusProcessing
      then (Some ''payment can only be completed from processing status'', p, s)
      else
        (let p1 = p\<lparr>p_Status := PaymentStatusCompleted\<rparr>;
             (ts, s1) = Timestamps_Update s (p_Timestamps p1);
             p2 = p1\<lparr>p_Timestamps := ts\<rparr>;
             p3 = p2\<lparr>p_Version := Version_Update (p_Version p2)\<rparr>;
             (completedAt, s2) = time_Now s1;
             (event, s3) = NewEvent s2 (p_ID p3) PaymentCompletedEvent
               (PaymentCompletedData (p_ID p3) (p_UserID p3) (p_Amount p3)
                  gatewayTransactionID transactionID completedAt)
         in (None, Payment_recordEvent p3 event, s3)))"

definition Fail :: "Sys \<Rightarrow> Payment \<Rightarrow> string \<Rightarrow> string \<Rightarrow> error option \<times> Payment \<times> Sys" where
  "Fail s p reason errorCode =
     (if p_Status p = PaymentStatusCompleted
      then (Some ''cannot fail a completed payment'', p, s)
      else
        (let p1 = p\<lparr>p_Status := PaymentStatusFailed\<rparr>;
             (ts, s1) = Timestamps_Update s (p_Timestamps p1);
             p2 = p1\<lparr>p_Timestamps := ts\<rparr>;
             p3 = p2\<lparr>p_Version := Version_Update (p_Version p2)\<rparr>;
             (failedAt, s2) = time_Now s1;
             (event, s3) = NewEvent s2 (p_ID p3) PaymentFailedEvent
               (PaymentFailedData (p_ID p3) (p_UserID p3) (p_Amount p3)
                  reason errorCode failedAt)
         in (None, Payment_recordEvent p3 event, s3)))"

definition Cancel :: "Sys \<Rightarrow> Payment \<Rightarrow> error option \<times> Payment \<times> Sys" where
  "Cancel s p =
     (if p_Status p = PaymentStatusCompleted
      then (Some ''cannot cancel a completed payment'', p, s)
      else
        (let p1 = p\<lparr>p_Status := PaymentStatusCancelled\<rparr>;
             (ts, s1) = Timestamps_Update s (p_Timestamps p1);
             p2 = p1\<lparr>p_Timestamps := ts\<rparr>;
             p3 = p2\<lparr>p_Version := Version_Update (p_Version p2)\<rparr>;
             (cancelledAt, s2) = time_Now s1;
             (event, s3) = NewEvent s2 (p_ID p3) PaymentCancelledEvent
               (PaymentCancelledData (p_ID p3) (p_UserID p3) cancelledAt)
         in (None, Payment_recordEvent p3 event, s3)))"

subsection \<open>Payment operation\<close>

abbreviation PaymentOperationTypeDebit :: string where "PaymentOperationTypeDebit \<equiv> ''debit''"
abbreviation PaymentOperationTypeRefund :: string where "PaymentOperationTypeRefund \<equiv> ''refund''"
abbreviation PaymentOperationTypeReversal :: string where
  "PaymentOperationTypeReversal \<equiv> ''reversal''"

abbreviation PaymentOperationStatusPending :: string where
  "PaymentOperationStatusPending \<equiv> ''pending''"
abbreviation PaymentOperationStatusProcessing :: string where
  "PaymentOperationStatusProcessing \<equiv> ''processing''"
abbreviation PaymentOperationStatusCompleted :: string where
  "PaymentOperationStatusCompleted \<equiv> ''completed''"
abbreviation PaymentOperationStatusFailed :: string where
  "PaymentOperationStatusFailed \<equiv> ''failed''"
abbreviation PaymentOperationStatusCancelled :: string where
  "PaymentOperationStatusCancelled \<equiv> ''cancelled''"

record PaymentOperation =
  po_ID :: ID
  po_PaymentID :: ID
  po_Type :: string
  po_Status :: string
  po_Amount :: Money
  po_Provider :: string
  po_ProviderTransactionID :: string
  po_ExternalTransactionID :: string
  po_ErrorCode :: string
  po_ErrorMessage :: string
  po_Metadata :: "string \<rightharpoonup> string"
  po_Timestamps :: Timestamps
  po_Version :: Version
  po_events :: "Event list"

definition NewPaymentOperation ::
  "Sys \<Rightarrow> ID \<Rightarrow> string \<Rightarrow> Money \<Rightarrow> string \<Rightarrow> PaymentOperation \<times> Sys" where
  "NewPaymentOperation s paymentID operationType amount provider =
     (let (oid, s1) = GenerateUUID s;
          (ts, s2) = NewTimestamps s1;
          operation = \<lparr>po_ID = oid, po_PaymentID = paymentID, po_Type = operationType,
            po_Status = PaymentOperationStatusPending, po_Amount = amount,
            po_Provider = provider, po_ProviderTransactionID = [],
            po_ExternalTransactionID = [], po_ErrorCode = [], po_ErrorMessage = [],
            po_Metadata = Map.empty, po_Timestamps = ts, po_Version = NewVersion,
            po_events = []\<rparr>;
          (event, s3) = NewEvent s2 (po_ID operation) PaymentOperationCreatedEvent
            (PaymentOperationCreatedData (po_ID operation) (po_PaymentID operation)
               (po_Type operation) (po_Amount operation) (po_Provider operation))
      in (operation\<lparr>po_events := po_events operation @ [event]\<rparr>, s3))"

section \<open>Payment use cases (payments-service/application)\<close>

text \<open>
  The use cases reach the store and the bus through the interfaces
  \<open>domain.PaymentRepository\<close> and \<open>events.Publisher\<close>. \<open>World\<close> is what stands behind
  them: the stored payments, the events published so far, and for each of the three
  calls the error it answers with, if any. \<open>errors.Wrap(err, msg)\<close> prints
  \<open>msg: err\<close>.
\<close>

record World =
  store :: "ID \<rightharpoonup> Payment"
  published :: "Event list"
  find_err :: "ID \<Rightarrow> error option"
  save_err :: "Payment \<Rightarrow> error option"
  publish_err :: "Event list \<Rightarrow> error option"

definition FindByID :: "World \<Rightarrow> ID \<Rightarrow> error + Payment option" where
  "FindByID wd pid = (case find_err wd pid of Some e \<Rightarrow> Inl e | None \<Rightarrow> Inr (store wd pid))"

definition Save :: "World \<Rightarrow> Payment \<Rightarrow> error option \<times> World" where
  "Save wd p =
     (case save_err wd p of
        Some e \<Rightarrow> (Some e, wd)
      | None \<Rightarrow> (None, wd\<lparr>store := (store wd)(p_ID p \<mapsto> p)\<rparr>))"

definition Publish :: "World \<Rightarrow> Event list \<Rightarrow> error option \<times> World" where
  "Publish wd evts =
     (case publish_err wd evts of
        Some e \<Rightarrow> (Some e, wd)
      | None \<Rightarrow> (None, wd\<lparr>published := published wd @ evts\<rparr>))"

definition Wrap :: "error \<Rightarrow> string \<Rightarrow> error" where
  "Wrap err message = message @ '': '' @ err"

record ProcessPaymentOperationResultCommand =
  cmd_OperationID :: ID
  cmd_PaymentID :: ID
  cmd_Type :: string
  cmd_Status :: string
  cmd_Amount :: Money
  cmd_ProviderTransactionID :: string
  cmd_ExternalTransactionID :: string
  cmd_ErrorCode :: string
  cmd_ErrorMessage :: string

definition processDebitOperation ::
  "Sys \<Rightarrow> Payment \<Rightarrow> ProcessPaymentOperationResultCommand \<Rightarrow> error option \<times> Payment \<times> Sys"
  where
  "processDebitOperation s payment cmd =
     (if cmd_Status cmd = PaymentOperationStatusCompleted then
        Complete s payment (cmd_ProviderTransactionID cmd) (cmd_ExternalTransactionID cmd)
      else if cmd_Status cmd = PaymentOperationStatusFailed then
        (let errorCode = (if cmd_ErrorCode cmd = [] then ''payment_operation_failed''
                          else cmd_ErrorCode cmd);
             errorMessage = (if cmd_ErrorMessage cmd = [] then ''Payment operation failed''
                             else cmd_ErrorMessage cmd)
         in Fail s payment errorMessage errorCode)
      else if cmd_Status cmd = PaymentOperationStatusCancelled then
        Cancel s payment
      else (None, payment, s))"

definition processRefundOperation ::
  "Sys \<Rightarrow> Payment \<Rightarrow> ProcessPaymentOperationResultCommand \<Rightarrow> error option \<times> Payment \<times> Sys"
  where
  "processRefundOperation s payment cmd =
     (if cmd_Status cmd = PaymentOperationStatusCompleted then
        (if p_Status payment \<noteq> PaymentStatusCompleted
         then (Some ''can only refund completed payments'', payment, s)
         else (None, Payment_ClearEvents payment, s))
      else if cmd_Status cmd = PaymentOperationStatusFailed then
        (Some (''refund failed: '' @ cmd_ErrorMessage cmd), payment, s)
      else (None, payment, s))"

definition processReversalOperation ::
  "Sys \<Rightarrow> Payment \<Rightarrow> ProcessPaymentOperationResultCommand \<Rightarrow> error option \<times> Payment \<times> Sys"
  where
  "processReversalOperation s payment cmd =
     (if cmd_Status cmd = PaymentOperationStatusCompleted then
        Cancel s payment
      else if cmd_Status cmd = PaymentOperationStatusFailed then
        (Some (''reversal failed - payment may be in inconsistent state: '' @
           cmd_ErrorMessage cmd), payment, s)
      else (None, payment, s))"

definition validateCommand :: "ProcessPaymentOperationResultCommand \<Rightarrow> error option" where
  "validateCommand cmd =
     (if cmd_OperationID cmd = [] then Some ''operation ID is required''
      else if cmd_PaymentID cmd = [] then Some ''payment ID is required''
      else if cmd_Type cmd = [] then Some ''operation type is required''
      else if cmd_Status cmd = [] then Some ''operation status is required''
      else if Amount (cmd_Amount cmd) \<le>s 0 then Some ''amount must be positive''
      else None)"

text \<open>
  \<open>ProcessPaymentOperationResult.Execute\<close>. The payment is the use case's own copy;
  what the caller can observe is the returned error, the store and the published events.
\<close>

definition ProcessPaymentOperationResult_Execute ::
  "Sys \<Rightarrow> World \<Rightarrow> ProcessPaymentOperationResultCommand \<Rightarrow> error option \<times> World \<times> Sys" where
  "ProcessPaymentOperationResult_Execute s wd cmd =
     (case validateCommand cmd of
        Some err \<Rightarrow> (Some (Wrap err ''invalid command''), wd, s)
      | None \<Rightarrow>
     (case FindByID wd (cmd_PaymentID cmd) of
        Inl err \<Rightarrow> (Some (Wrap err ''failed to find payment''), wd, s)
      | Inr None \<Rightarrow> (Some ''payment not found'', wd, s)
      | Inr (Some payment) \<Rightarrow>
     (if cmd_Type cmd \<noteq> PaymentOperationTypeDebit \<and> cmd_Type cmd \<noteq> PaymentOperationTypeRefund \<and>
         cmd_Type cmd \<noteq> PaymentOperationTypeReversal
      then (Some (''unsupported operation type: '' @ cmd_Type cmd), wd, s)
      else
     (case (if cmd_Type cmd = PaymentOperationTypeDebit then processDebitOperation s payment cmd
            else if cmd_Type cmd = PaymentOperationTypeRefund then processRefundOperation s payment cmd
            else processReversalOperation s payment cmd) of
        (Some err, payment1, s1) \<Rightarrow> (Some (Wrap err ''failed to process operation''), wd, s1)
      | (None, payment1, s1) \<Rightarrow>
     (case Save wd payment1 of
        (Some err, wd1) \<Rightarrow> (Some (Wrap err ''failed to save payment''), wd1, s1)
      | (None, wd1) \<Rightarrow>
     (case Publish wd1 (Payment_Events payment1) of
        (Some err, wd2) \<Rightarrow> (Some (Wrap err ''failed to publish payment events''), wd2, s1)
      | (None, wd2) \<Rightarrow> (None, wd2, s1)))))))"

text \<open>
  \<open>ProcessPaymentMethod.Execute\<close>. Reading \<open>WalletID\<close> through a nil
  \<open>WalletPaymentMethod\<close> panics; the panic is the error \<open>panic_nil\<close>.
\<close>

abbreviation panic_nil :: error where
  "panic_nil \<equiv> ''panic: runtime error: invalid memory address or nil pointer dereference''"

definition ProcessPaymentMethod_Execute :: "Sys \<Rightarrow> World \<Rightarrow> ID \<Rightarrow> error option \<times> World \<times> Sys" where
  "ProcessPaymentMethod_Execute s wd cmd_paymentID =
     (case FindByID wd cmd_paymentID of
        Inl err \<Rightarrow> (Some (Wrap err ''failed to find payment''), wd, s)
      | Inr None \<Rightarrow> (Some ''payment not found'', wd, s)
      | Inr (Some payment0) \<Rightarrow>
     (if p_Status payment0 \<noteq> PaymentStatusInitiated
      then (Some ''payment must be in initiated status to process'', wd, s)
      else
     (case Process s payment0 of
        (Some err, payment, s1) \<Rightarrow> (Some (Wrap err ''failed to mark payment as processing''), wd, s1)
      | (None, payment, s1) \<Rightarrow>
     (case Save wd payment of
        (Some err, wd1) \<Rightarrow> (Some (Wrap err ''failed to save payment''), wd1, s1)
      | (None, wd1) \<Rightarrow>
     (case
        (if PaymentMethodType (p_PaymentMethod payment) = PaymentMethodTypeWallet then
           (case pm_WalletPaymentMethod (p_PaymentMethod payment) of
              None \<Rightarrow> (Some panic_nil, payment, wd1, s1)
            | Some wpm \<Rightarrow>
                (let (debitEvent, s2) = NewEvent s1 (p_ID payment) WalletDebitRequestedEvent
                       (WalletDebitRequestedData (p_ID payment) (WalletID wpm) (p_UserID payment)
                          (p_Amount payment) (''Payment '' @ p_ID payment))
                 in (case Publish wd1 [debitEvent] of
                       (Some err, wd2) \<Rightarrow>
                         (Some (Wrap err ''failed to publish wallet debit requested event''),
                          payment, wd2, s2)
                     | (None, wd2) \<Rightarrow> (None, payment, wd2, s2))))
         else if PaymentMethodType (p_PaymentMethod payment) = PaymentMethodTypeCreditCard then
           (let (operation, s2) = NewPaymentOperation s1 (p_ID payment) PaymentOperationTypeDebit
                  (p_Amount payment) (PaymentMethodType (p_PaymentMethod payment))
            in (case Publish wd1 (po_events operation) of
                  (Some err, wd2) \<Rightarrow>
                    (Some (Wrap err ''failed to publish payment operation events''),
                     payment, wd2, s2)
                | (None, wd2) \<Rightarrow> (None, payment, wd2, s2)))
         else
           (case Fail s1 payment ''unsupported_payment_method'' ''Payment method not supported'' of
              (Some err, payment1, s2) \<Rightarrow>
                (Some (Wrap err ''failed to mark payment as failed''), payment1, wd1, s2)
            | (None, payment1, s2) \<Rightarrow>
                (case Save wd1 payment1 of
                   (Some err, wd2) \<Rightarrow>
                     (Some (Wrap err ''failed to save failed payment''), payment1, wd2, s2)
                 | (None, wd2) \<Rightarrow> (None, payment1, wd2, s2)))) of
        (Some err, payment2, wd3, s3) \<Rightarrow> (Some err, wd3, s3)
      | (None, payment2, wd3, s3) \<Rightarrow>
     (case Publish wd3 (Payment_Events payment2) of
        (Some err, wd4) \<Rightarrow> (Some (Wrap err ''failed to publish payment events''), wd4, s3)
      | (None, wd4) \<Rightarrow> (None, wd4, s3)))))))"

subsection \<open>Concrete payments and commands\<close>

definition method_wallet :: PaymentMethod where
  "method_wallet = \<lparr>PaymentMethodType = PaymentMethodTypeWallet,
     pm_WalletPaymentMethod = Some \<lparr>WalletID = ''w1''\<rparr>, pm_CreditCardPaymentMethod = None\<rparr>"

definition method_debit :: PaymentMethod where
  "method_debit = \<lparr>PaymentMethodType = PaymentMethodTypeDebit,
     pm_WalletPaymentMethod = None,
     pm_CreditCardPaymentMethod = Some \<lparr>CardToken = ''tok_1''\<rparr>\<rparr>"

definition payment0 :: Payment where
  "payment0 = \<lparr>p_ID = ''pay1'', p_UserID = ''u1'', p_Amount = NewMoney 5000 ''USD'',
     p_PaymentMethod = method_wallet, p_Description = ''order 1'',
     p_Status = PaymentStatusInitiated,
     p_Timestamps = \<lparr>CreatedAt = 0, UpdatedAt = 0, DeletedAt = None\<rparr>,
     p_Version = NewVersion, p_events = []\<rparr>"

definition world_of :: "Payment \<Rightarrow> World" where
  "world_of p = \<lparr>store = [p_ID p \<mapsto> p], published = [],
     find_err = (\<lambda>i. None), save_err = (\<lambda>q. None), publish_err = (\<lambda>es. None)\<rparr>"

definition cmd0 :: ProcessPaymentOperationResultCommand where
  "cmd0 = \<lparr>cmd_OperationID = ''op1'', cmd_PaymentID = ''pay1'',
     cmd_Type = PaymentOperationTypeDebit, cmd_Status = PaymentOperationStatusFailed,
     cmd_Amount = NewMoney 5000 ''USD'', cmd_ProviderTransactionID = [],
     cmd_ExternalTransactionID = [], cmd_ErrorCode = [], cmd_ErrorMessage = []\<rparr>"

definition payment_processing :: Payment where
  "payment_processing = payment0\<lparr>p_Status := PaymentStatusProcessing\<rparr>"

definition payment_debit :: Payment where
  "payment_debit = payment0\<lparr>p_PaymentMethod := method_debit\<rparr>"

definition cmd_reversal :: ProcessPaymentOperationResultCommand where
  "cmd_reversal = cmd0\<lparr>cmd_Type := PaymentOperationTypeReversal, cmd_ErrorMessage := ''declined''\<rparr>"

subsection \<open>What a transition of the payment state machine does\<close>

text \<open>
  \<open>rejected\<close>: the method returned an error and left the payment (and the clock and
  identifier sources) as they were. \<open>transitioned\<close>: the method returned no error, the
  payment has the target status, its version is one higher, \<open>UpdatedAt\<close> is the clock's
  reading, exactly one event of the given type was appended, and nothing else changed.
\<close>

definition rejected :: "Sys \<Rightarrow> Payment \<Rightarrow> error option \<times> Payment \<times> Sys \<Rightarrow> bool" where
  "rejected s p res = (case res of (r, p', s') \<Rightarrow> r \<noteq> None \<and> p' = p \<and> s' = s)"

definition transitioned ::
  "Sys \<Rightarrow> Payment \<Rightarrow> string \<Rightarrow> string \<Rightarrow> error option \<times> Payment \<times> Sys \<Rightarrow> bool" where
  "transitioned s p target topic res =
     (case res of (r, p', s') \<Rightarrow>
        r = None \<and> p_Status p' = target \<and>
        Value (p_Version p') = Value (p_Version p) + 1 \<and>
        UpdatedAt (p_Timestamps p') = clock s (clock_pos s) \<and>
        CreatedAt (p_Timestamps p') = CreatedAt (p_Timestamps p) \<and>
        DeletedAt (p_Timestamps p') = DeletedAt (p_Timestamps p) \<and>
        (\<exists>ev. p_events p' = p_events p @ [ev] \<and> e_EventType ev = topic \<and>
           e_AggregateID ev = p_ID p) \<and>
        p_ID p' = p_ID p \<and> p_UserID p' = p_UserID p \<and> p_Amount p' = p_Amount p \<and>
        p_PaymentMethod p' = p_PaymentMethod p \<and> p_Description p' = p_Description p)"

definition cmd_with_status :: "string \<Rightarrow> ProcessPaymentOperationResultCommand" where
  "cmd_with_status st = cmd0\<lparr>cmd_Status := st, cmd_ProviderTransactionID := ''gw1'',
     cmd_ExternalTransactionID := ''tx1''\<rparr>"

section \<open>Topics and metadata (shared/events/menta_events.go)\<close>

text \<open>
  The functions of Go's \<open>strings\<close> package that \<open>Topic.Matches\<close> calls, on byte
  strings: \<open>HasPrefix\<close>, \<open>HasSuffix\<close>, \<open>TrimPrefix\<close>, \<open>TrimSuffix\<close>, \<open>Contains\<close>, and
  \<open>Split\<close> with a separator of one byte (\<open>Split\<close> of the empty string is the list
  holding one empty string).
\<close>

definition HasPrefix :: "string \<Rightarrow> string \<Rightarrow> bool" where
  "HasPrefix s pre = (take (length pre) s = pre)"

definition HasSuffix :: "string \<Rightarrow> string \<Rightarrow> bool" where
  "HasSuffix s suf = (length suf \<le> length s \<and> drop (length s - length suf) s = suf)"

definition TrimPrefix :: "string \<Rightarrow> string \<Rightarrow> string" where
  "TrimPrefix s pre = (if HasPrefix s pre then drop (length pre) s else s)"

definition TrimSuffix :: "string \<Rightarrow> string \<Rightarrow> string" where
  "TrimSuffix s suf = (if HasSuffix s suf then take (length s - length suf) s else s)"

fun Contains :: "string \<Rightarrow> string \<Rightarrow> bool" where
  "Contains [] substr = (substr = [])"
| "Contains (c # cs) substr = (HasPrefix (c # cs) substr \<or> Contains cs substr)"

fun Split :: "string \<Rightarrow> char \<Rightarrow> string list" where
  "Split [] sep = [[]]"
| "Split (c # cs) sep =
     (if c = sep then [] # Split cs sep
      else (case Split cs sep of
              [] \<Rightarrow> [[c]]
            | part # parts \<Rightarrow> (c # part) # parts))"

text \<open>Joining the parts with the separator gives the string back, and no part holds the
  separator: \<open>Split\<close> cuts at every separator and nowhere else.\<close>

fun Join :: "string list \<Rightarrow> char \<Rightarrow> string" where
  "Join [] sep = []"
| "Join [part] sep = part"
| "Join (part # parts) sep = part @ sep # Join parts sep"

type_synonym Topic = string

function matchPattern :: "string list \<Rightarrow> string list \<Rightarrow> bool" where
  "matchPattern patternParts topicParts =
     (if length patternParts = 1 \<and> hd patternParts = ''#'' then True
      else if length patternParts \<noteq> length topicParts then False
      else if length patternParts = 0 then True
      else if hd patternParts = ''*'' \<or> hd patternParts = hd topicParts
           then matchPattern (tl patternParts) (tl topicParts)
      else False)"
  by pat_completeness auto
termination
  by (relation "measure (\<lambda>(patternParts, topicParts). length patternParts)") auto

declare matchPattern.simps [simp del]

definition Topic_Matches :: "Topic \<Rightarrow> Topic \<Rightarrow> bool" where
  "Topic_Matches t pattern =
     (if HasPrefix pattern ''#'' \<and> HasSuffix pattern ''#''
      then Contains t (TrimSuffix (TrimPrefix pattern ''#'') ''#'')
      else if HasPrefix pattern ''#'' then HasSuffix t (TrimPrefix pattern ''#'')
      else if HasSuffix pattern ''#'' then HasPrefix t (TrimSuffix pattern ''#'')
      else matchPattern (Split pattern CHR ''.'') (Split t CHR ''.''))"

text \<open>
  \<open>Metadata\<close> is a Go map from strings to strings; \<open>None\<close> is the nil map, which reads
  as the empty one. Indexing a map at an absent key yields the empty string.
\<close>

type_synonym Metadata = "(string \<rightharpoonup> string) option"

definition entries :: "Metadata \<Rightarrow> (string \<rightharpoonup> string)" where
  "entries m = (case m of None \<Rightarrow> Map.empty | Some f \<Rightarrow> f)"

definition Metadata_index :: "Metadata \<Rightarrow> string \<Rightarrow> string" where
  "Metadata_index m k = (case entries m k of None \<Rightarrow> [] | Some v \<Rightarrow> v)"

definition Metadata_Matches :: "Metadata \<Rightarrow> Metadata \<Rightarrow> bool" where
  "Metadata_Matches m o_md =
     (\<forall>k \<in> dom (entries o_md). Metadata_index m k = the (entries o_md k))"

text \<open>
  The payload of a \<open>MentaEvent\<close> is an \<open>interface{}\<close>. Its dynamic type decides what
  \<open>MarshalPayload\<close> does: a \<open>[]byte\<close>, a \<open>json.RawMessage\<close>, or any other value (of
  a type \<open>'v\<close>; the nil interface is \<open>PNil\<close>).
\<close>

datatype 'v Payload = PNil | PBytes string | PRawMessage string | PValue 'v

record 'v MentaEvent =
  me_ID :: string
  me_Topic :: Topic
  me_Metadata :: Metadata
  me_Payload :: "'v Payload"
  me_Timestamp :: Time

definition MentaEvent_Matches :: "'v MentaEvent \<Rightarrow> Topic \<Rightarrow> Metadata \<Rightarrow> bool" where
  "MentaEvent_Matches e topic metadata =
     (Topic_Matches (me_Topic e) topic \<and> Metadata_Matches (me_Metadata e) metadata)"

definition menta0 :: "string MentaEvent" where
  "menta0 = \<lparr>me_ID = ''e1'', me_Topic = ''payment.created'', me_Metadata = Some Map.empty,
     me_Payload = PValue ''hello'', me_Timestamp = 7\<rparr>"

definition menta1 :: "string MentaEvent" where
  "menta1 = menta0\<lparr>me_Metadata := Some [''tenant'' \<mapsto> ''acme'', ''region'' \<mapsto> ''eu'']\<rparr>"


section \<open>The envelope's JSON form (shared/events/menta_events.go)\<close>

text \<open>
  \<open>EventDTO\<close> is the struct that travels; its payload is a \<open>json.RawMessage\<close>, a
  byte string. The package \<open>encoding/json\<close> is not part of the repository: the three
  uses the source makes of it are the fields of \<open>encoding_json\<close>, and the functions of
  the source take the package as their first argument. \<open>'v\<close> is the type of the
  payload values that are neither byte strings nor nil, \<open>'b\<close> the type of an encoded
  document; \<open>Unmarshal_dto\<close> answers \<open>None\<close> when it leaves the \<open>*EventDTO\<close> nil
  (the document \<open>null\<close>).
\<close>

record EventDTO =
  dto_ID :: string
  dto_Topic :: string
  dto_Metadata :: Metadata
  dto_Payload :: string
  dto_Timestamp :: Time

record ('v, 'b) encoding_json =
  Marshal_value :: "'v \<Rightarrow> error + string"
  Marshal_dto :: "EventDTO \<Rightarrow> error + 'b"
  Unmarshal_dto :: "'b \<Rightarrow> error + EventDTO option"



definition MarshalPayload :: "('v, 'b) encoding_json \<Rightarrow> 'v MentaEvent \<Rightarrow> error + string" where
  "MarshalPayload c e =
     (case me_Payload e of
        PBytes b \<Rightarrow> Inr b
      | PRawMessage b \<Rightarrow> Inr b
      | PNil \<Rightarrow> Inr ''null''
      | PValue v \<Rightarrow> Marshal_value c v)"





text \<open>
  A package for the concrete inputs. When \<open>json.Marshal\<close> writes a \<open>json.RawMessage\<close> it
  compacts it: \<open>Compact\<close> drops the blanks (space, tab, line feed, carriage return)
  outside string literals and writes \<open><\<close>, \<open>>\<close> and \<open>&\<close> as \<open>\u003c\<close>, \<open>\u003e\<close>
  and \<open>\u0026\<close>, and the line and paragraph separators (the bytes \<open>E2 80 A8\<close> and
  \<open>E2 80 A9\<close>) as \<open>\u2028\<close> and \<open>\u2029\<close>; its first argument says whether the text
  read so far ends inside a string literal. \<open>json0\<close> writes an \<open>EventDTO\<close> with its
  payload compacted and reads a document as it is written. It takes every raw payload
  as well-formed JSON and writes a string value between double quotes, as
  \<open>json.Marshal\<close> does for the values used below (\<open>{}\<close>, \<open>{ }\<close> and \<open>hello\<close>).
\<close>

fun Compact :: "bool \<Rightarrow> string \<Rightarrow> string" where
  "Compact inString [] = []"
| "Compact inString (c # cs) =
     (if c = CHR ''<'' then CHR 0x5C # ''u003c'' @ Compact inString cs
      else if c = CHR ''>'' then CHR 0x5C # ''u003e'' @ Compact inString cs
      else if c = CHR ''&'' then CHR 0x5C # ''u0026'' @ Compact inString cs
      else if c = CHR 0xE2 \<and> take 2 cs = [CHR 0x80, CHR 0xA8]
           then CHR 0x5C # ''u2028'' @ Compact inString (drop 2 cs)
      else if c = CHR 0xE2 \<and> take 2 cs = [CHR 0x80, CHR 0xA9]
           then CHR 0x5C # ''u2029'' @ Compact inString (drop 2 cs)
      else if inString then
        (if c = CHR 0x5C then
           (case cs of [] \<Rightarrow> [c] | d # ds \<Rightarrow> c # d # Compact True ds)
         else if c = CHR 0x22 then c # Compact False cs
         else c # Compact True cs)
      else if c = CHR 0x22 then c # Compact True cs
      else if c = CHR '' '' \<or> c = CHR 0x09 \<or> c = CHR 0x0A \<or> c = CHR 0x0D
           then Compact False cs
      else c # Compact False cs)"

definition json0 :: "(string, EventDTO) encoding_json" where
  "json0 = \<lparr>Marshal_value = (\<lambda>v. Inr (CHR 0x22 # v @ [CHR 0x22])),
     Marshal_dto = (\<lambda>d. Inr (d\<lparr>dto_Payload := Compact False (dto_Payload d)\<rparr>)),
     Unmarshal_dto = (\<lambda>b. Inr (Some b))\<rparr>"

definition menta_raw :: "string MentaEvent" where
  "menta_raw = menta1\<lparr>me_Payload := PRawMessage ''{}''\<rparr>"


section \<open>The JSON form of a domain event (shared/events/events.go)\<close>












section \<open>Publisher (shared/infrastructure/sns\_event\_publisher.go)\<close>

text \<open>
  \<open>splitToChunks\<close>: the loop, with the chunk size a natural number, and the function
  (\<open>items\<close> is the source's \<open>slice\<close>).
  For a chunk size of zero the loop of the source does not end, and for a negative one
  its slice expression panics: the function returns \<open>None\<close> then.
\<close>

function splitToChunks_loop :: "'a list \<Rightarrow> nat \<Rightarrow> nat \<Rightarrow> 'a list list \<Rightarrow> 'a list list" where
  "splitToChunks_loop items chunkSize i chunks =
     (if i < length items \<and> 0 < chunkSize then
        (let end = (if i + chunkSize > length items then length items else i + chunkSize)
         in splitToChunks_loop items chunkSize (i + chunkSize)
              (chunks @ [take (end - i) (drop i items)]))
      else chunks)"
  by pat_completeness auto
termination
  by (relation "measure (\<lambda>(items, chunkSize, i, chunks). length items - i)") auto

declare splitToChunks_loop.simps [simp del]

definition splitToChunks :: "'a list \<Rightarrow> int \<Rightarrow> 'a list list option" where
  "splitToChunks items chunkSize =
     (if items = [] then Some []
      else if chunkSize \<le> 0 then None
      else Some (splitToChunks_loop items (nat chunkSize) 0 []))"

abbreviation maxBatchSize :: int where "maxBatchSize \<equiv> 10"

text \<open>
  The events that \<open>Publish\<close> receives have the envelope's fields (id, topic, metadata,
  payload, timestamp) and its \<open>MarshalPayload\<close>: they are \<open>MentaEvent\<close> values here.
  The message of a request entry is the JSON form of these five fields.

  The broker: \<open>sns_answer\<close> is the error \<open>PublishBatch\<close> returns for a batch, given
  whether the context is cancelled; \<open>sns_calls\<close> lists the batches it has received.
\<close>

record 'b PublishBatchRequestEntry =
  Id :: string
  Message :: 'b
  MessageAttributes :: "string \<rightharpoonup> string"

record 'b SNS =
  sns_calls :: "'b PublishBatchRequestEntry list list"
  sns_answer :: "bool \<Rightarrow> 'b PublishBatchRequestEntry list \<Rightarrow> error option"

definition PublishBatch ::
  "'b SNS \<Rightarrow> bool \<Rightarrow> 'b PublishBatchRequestEntry list \<Rightarrow> error option \<times> 'b SNS" where
  "PublishBatch sns cancelled requests =
     (sns_answer sns cancelled requests, sns\<lparr>sns_calls := sns_calls sns @ [requests]\<rparr>)"

fun buildRequests ::
  "('v, 'b) encoding_json \<Rightarrow> 'v MentaEvent list \<Rightarrow> error + 'b PublishBatchRequestEntry list" where
  "buildRequests c [] = Inr []"
| "buildRequests c (event # events) =
     (case MarshalPayload c event of
        Inl err \<Rightarrow> Inl (Wrap err ''failed to marshal payload'')
      | Inr payload \<Rightarrow>
          (case Marshal_dto c \<lparr>dto_ID = me_ID event, dto_Topic = me_Topic event,
                  dto_Metadata = me_Metadata event, dto_Payload = payload,
                  dto_Timestamp = me_Timestamp event\<rparr> of
             Inl err \<Rightarrow> Inl (Wrap err ''failed to marshal message'')
           | Inr msgJson \<Rightarrow>
               (case buildRequests c events of
                  Inl err \<Rightarrow> Inl err
                | Inr requests \<Rightarrow>
                    Inr (\<lparr>Id = me_ID event, Message = msgJson,
                          MessageAttributes =
                            [''topic'' \<mapsto> me_Topic event] ++
                            (entries (me_Metadata event) |`
                               (- {''sqs_message_id'', ''sqs_receipt_handle''}))\<rparr>
                         # requests))))"

definition batchPublish ::
  "('v, 'b) encoding_json \<Rightarrow> 'b SNS \<Rightarrow> bool \<Rightarrow> 'v MentaEvent list \<Rightarrow> error option \<times> 'b SNS" where
  "batchPublish c sns cancelled events =
     (case buildRequests c events of
        Inl err \<Rightarrow> (Some err, sns)
      | Inr requests \<Rightarrow>
          (case PublishBatch sns cancelled requests of
             (Some err, sns1) \<Rightarrow> (Some (Wrap err ''failed to publish batch to SNS''), sns1)
           | (None, sns1) \<Rightarrow> (None, sns1)))"

text \<open>
  \<open>errgroup\<close>: every batch runs in its own goroutine. \<open>order\<close> lists the batch
  indices in the order in which the goroutines run to their end; the group keeps the
  first error that is returned, cancels the context at that moment, and \<open>Wait\<close> returns
  that error once all goroutines are done.
\<close>

fun errgroup_Wait ::
  "('v, 'b) encoding_json \<Rightarrow> 'b SNS \<Rightarrow> error option \<Rightarrow> nat list \<Rightarrow> 'v MentaEvent list list \<Rightarrow>
     error option \<times> 'b SNS" where
  "errgroup_Wait c sns err [] batchEvents = (err, sns)"
| "errgroup_Wait c sns err (i # order) batchEvents =
     (if i < length batchEvents then
        (case batchPublish c sns (err \<noteq> None) (batchEvents ! i) of
           (r, sns1) \<Rightarrow>
             errgroup_Wait c sns1 (if err = None then r else err) order batchEvents)
      else errgroup_Wait c sns err order batchEvents)"

definition SNS_Publish ::
  "('v, 'b) encoding_json \<Rightarrow> 'b SNS \<Rightarrow> nat list \<Rightarrow> 'v MentaEvent list \<Rightarrow>
     (error option \<times> 'b SNS) option" where
  "SNS_Publish c sns order evts =
     (if length evts = 0 then Some (None, sns)
      else (case splitToChunks evts maxBatchSize of
              None \<Rightarrow> None
            | Some batchEvents \<Rightarrow> Some (errgroup_Wait c sns None order batchEvents)))"


text \<open>
  \<open>batch_error\<close>: the error \<open>batchPublish\<close> returns for a batch while the context is
  live, for a broker that answers with \<open>answer\<close>.
\<close>

definition batch_error ::
  "('v, 'b) encoding_json \<Rightarrow> (bool \<Rightarrow> 'b PublishBatchRequestEntry list \<Rightarrow> error option) \<Rightarrow>
     'v MentaEvent list \<Rightarrow> error option" where
  "batch_error c answer events =
     fst (batchPublish c \<lparr>sns_calls = [], sns_answer = answer\<rparr> False events)"

definition sns0 :: "EventDTO SNS" where
  "sns0 = \<lparr>sns_calls = [],
     sns_answer = (\<lambda>cancelled requests.
        if length requests = 10 then Some ''throttled'' else Some ''timeout'')\<rparr>"

definition evts12 :: "string MentaEvent list" where
  "evts12 = [menta_raw, menta_raw, menta_raw, menta_raw, menta_raw, menta_raw,
             menta_raw, menta_raw, menta_raw, menta_raw, menta_raw, menta_raw]"


section \<open>Verified properties\<close>

lemmas sys_defs = GenerateUUID_def time_Now_def NewTimestamps_def Timestamps_Update_def
  NewEvent_def

lemmas wallet_defs = Debit_def Credit_def Freeze_def Unfreeze_def Wallet_recordEvent_def
  Version_Update_def Money_Subtract_def Money_Add_def NewMoney_def IsPositive_def

subsection \<open>Wallet\<close>

lemma sint_sub_no_wrap:
  fixes a b :: int64
  assumes "0 <s a" "\<not> b <s a"
  shows "sint (b - a) = sint b - sint a"
proof -
  have a: "0 < sint a" using assms(1) by (simp add: word_sless_alt)
  have b: "sint a \<le> sint b" using assms(2) by (simp add: word_sless_alt)
  have ub: "sint b < 2 ^ 63" using sint_lt [of b] by simp
  have "sint (b - a) = signed_take_bit 63 (sint b - sint a)"
    by (simp add: sint_word_ariths)
  also have "\<dots> = sint b - sint a"
    using a b ub by (intro signed_take_bit_int_eq_self) auto
  finally show ?thesis .
qed

lemma sint_add_no_wrap:
  fixes a b :: int64
  assumes "0 \<le> sint b" "0 < sint a" "sint b + sint a < 2 ^ 63"
  shows "sint (b + a) = sint b + sint a"
proof -
  have "sint (b + a) = signed_take_bit 63 (sint b + sint a)"
    by (simp add: sint_word_ariths)
  also have "\<dots> = sint b + sint a"
    using assms by (intro signed_take_bit_int_eq_self) auto
  finally show ?thesis .
qed

lemma Debit_insufficient:
  assumes "w_Status w = WalletStatusActive" "Currency amount = Currency (w_Balance w)"
    "0 <s Amount amount" "Amount (w_Balance w) <s Amount amount"
  shows "case Debit s w amount paymentID reference of (res, w', s') \<Rightarrow>
          res = Inl ''insufficient funds'' \<and>
          w_Balance w' = w_Balance w \<and> w_Version w' = w_Version w \<and>
          w_Status w' = w_Status w \<and> w_Timestamps w' = w_Timestamps w \<and>
          (\<exists>ev. w_events w' = w_events w @ [ev] \<and>
             e_EventType ev = InsufficientFundsEvent \<and> e_AggregateID ev = w_ID w \<and>
             e_Data ev = InsufficientFundsData (w_ID w) (w_UserID w) paymentID amount (w_Balance w)
               \<lparr>Amount = Amount amount - Amount (w_Balance w), Currency = Currency amount\<rparr>)"
  using assms by (simp add: wallet_defs sys_defs Let_def)

lemma Debit_sufficient:
  assumes "w_Status w = WalletStatusActive" "Currency amount = Currency (w_Balance w)"
    "0 <s Amount amount" "\<not> Amount (w_Balance w) <s Amount amount"
  shows "case Debit s w amount paymentID reference of (res, w', s') \<Rightarrow>
          (\<exists>t. res = Inr t \<and>
             t_Type t = TransactionTypeDebit \<and> t_Amount t = amount \<and>
             t_WalletID t = w_ID w \<and> t_PaymentID t = Some paymentID \<and>
             t_Reference t = reference \<and>
             t_BalanceBefore t = w_Balance w \<and> t_BalanceAfter t = w_Balance w' \<and>
             (\<exists>ev. w_events w' = w_events w @ [ev] \<and>
                e_EventType ev = WalletDebitedEvent \<and> e_AggregateID ev = w_ID w \<and>
                e_Data ev = WalletDebitedData (w_ID w) (w_UserID w) paymentID (t_ID t) amount
                  (t_BalanceBefore t) (t_BalanceAfter t) reference)) \<and>
          Amount (w_Balance w') = Amount (w_Balance w) - Amount amount \<and>
          Currency (w_Balance w') = Currency (w_Balance w) \<and>
          Value (w_Version w') = Value (w_Version w) + 1 \<and>
          w_Status w' = w_Status w"
  using assms by (simp add: wallet_defs sys_defs Let_def)

lemma Debit_success_iff:
  "(\<exists>t. fst (Debit s w amount paymentID reference) = Inr t) \<longleftrightarrow>
     (w_Status w = WalletStatusActive \<and> Currency amount = Currency (w_Balance w) \<and>
      0 <s Amount amount \<and> \<not> Amount (w_Balance w) <s Amount amount)"
  by (simp add: wallet_defs Let_def split: prod.splits)

text \<open>
  Claim C1. \<open>Wallet.Debit\<close> returns a transaction only when the wallet is active, the
  currencies agree and the amount is positive. Whenever \<open>balance < amount\<close> it returns
  an error and leaves balance and version as they were. With the three in place and
  \<open>balance < amount\<close>, it returns the error \<open>insufficient funds\<close>, leaves balance,
  version, status and timestamps as they were, and appends one
  \<open>wallet.insufficient.funds\<close> event that carries the requested amount, the available
  balance and the shortfall \<open>amount - balance\<close>. With \<open>balance \<ge> amount\<close> it returns a
  \<open>debit\<close> transaction whose \<open>BalanceBefore\<close> and \<open>BalanceAfter\<close> are the balance before
  and after, the new balance is \<open>balance - amount\<close> (without wrap-around), the version is
  one higher, and one \<open>wallet.debited\<close> event is appended.
\<close>

theorem Debit_contract:
  "((\<exists>t. fst (Debit s w amount paymentID reference) = Inr t) \<longrightarrow>
      w_Status w = WalletStatusActive \<and> Currency amount = Currency (w_Balance w) \<and>
      0 <s Amount amount) \<and>
   (Amount (w_Balance w) <s Amount amount \<longrightarrow>
      (case Debit s w amount paymentID reference of (res, w', s') \<Rightarrow>
         (\<exists>e. res = Inl e) \<and> w_Balance w' = w_Balance w \<and> w_Version w' = w_Version w)) \<and>
   (w_Status w = WalletStatusActive \<and> Currency amount = Currency (w_Balance w) \<and>
    0 <s Amount amount \<and> Amount (w_Balance w) <s Amount amount \<longrightarrow>
      (case Debit s w amount paymentID reference of (res, w', s') \<Rightarrow>
         res = Inl ''insufficient funds'' \<and>
         w_Balance w' = w_Balance w \<and> w_Version w' = w_Version w \<and>
         w_Status w' = w_Status w \<and> w_Timestamps w' = w_Timestamps w \<and>
         (\<exists>ev. w_events w' = w_events w @ [ev] \<and>
            e_EventType ev = InsufficientFundsEvent \<and> e_AggregateID ev = w_ID w \<and>
            e_Data ev = InsufficientFundsData (w_ID w) (w_UserID w) paymentID amount (w_Balance w)
              \<lparr>Amount = Amount amount - Amount (w_Balance w), Currency = Currency amount\<rparr>))) \<and>
   (w_Status w = WalletStatusActive \<and> Currency amount = Currency (w_Balance w) \<and>
    0 <s Amount amount \<and> \<not> Amount (w_Balance w) <s Amount amount \<longrightarrow>
      (case Debit s w amount paymentID reference of (res, w', s') \<Rightarrow>
         (\<exists>t. res = Inr t \<and>
            t_Type t = TransactionTypeDebit \<and> t_Amount t = amount \<and>
            t_WalletID t = w_ID w \<and> t_PaymentID t = Some paymentID \<and>
            t_Reference t = reference \<and>
            t_BalanceBefore t = w_Balance w \<and> t_BalanceAfter t = w_Balance w' \<and>
            (\<exists>ev. w_events w' = w_events w @ [ev] \<and>
               e_EventType ev = WalletDebitedEvent \<and> e_AggregateID ev = w_ID w \<and>
               e_Data ev = WalletDebitedData (w_ID w) (w_UserID w) paymentID (t_ID t) amount
                 (t_BalanceBefore t) (t_BalanceAfter t) reference)) \<and>
         Amount (w_Balance w') = Amount (w_Balance w) - Amount amount \<and>
         sint (Amount (w_Balance w')) = sint (Amount (w_Balance w)) - sint (Amount amount) \<and>
         Currency (w_Balance w') = Currency (w_Balance w) \<and>
         Value (w_Version w') = Value (w_Version w) + 1 \<and>
         w_Status w' = w_Status w))"
proof (intro conjI impI)
  assume "\<exists>t. fst (Debit s w amount paymentID reference) = Inr t"
  then have g: "w_Status w = WalletStatusActive \<and> Currency amount = Currency (w_Balance w) \<and>
      0 <s Amount amount \<and> \<not> Amount (w_Balance w) <s Amount amount"
    using Debit_success_iff by blast
  from g show "w_Status w = WalletStatusActive" by simp
  from g show "Currency amount = Currency (w_Balance w)" by simp
  from g show "0 <s Amount amount" by simp
next
  assume "Amount (w_Balance w) <s Amount amount"
  then show "case Debit s w amount paymentID reference of (res, w', s') \<Rightarrow>
      (\<exists>e. res = Inl e) \<and> w_Balance w' = w_Balance w \<and> w_Version w' = w_Version w"
    by (simp add: wallet_defs sys_defs Let_def)
next
  assume b: "w_Status w = WalletStatusActive \<and> Currency amount = Currency (w_Balance w) \<and>
    0 <s Amount amount \<and> Amount (w_Balance w) <s Amount amount"
  show "case Debit s w amount paymentID reference of (res, w', s') \<Rightarrow>
         res = Inl ''insufficient funds'' \<and>
         w_Balance w' = w_Balance w \<and> w_Version w' = w_Version w \<and>
         w_Status w' = w_Status w \<and> w_Timestamps w' = w_Timestamps w \<and>
         (\<exists>ev. w_events w' = w_events w @ [ev] \<and>
            e_EventType ev = InsufficientFundsEvent \<and> e_AggregateID ev = w_ID w \<and>
            e_Data ev = InsufficientFundsData (w_ID w) (w_UserID w) paymentID amount (w_Balance w)
              \<lparr>Amount = Amount amount - Amount (w_Balance w), Currency = Currency amount\<rparr>)"
    by (rule Debit_insufficient) (use b in simp_all)
next
  assume a: "w_Status w = WalletStatusActive \<and> Currency amount = Currency (w_Balance w) \<and>
    0 <s Amount amount \<and> \<not> Amount (w_Balance w) <s Amount amount"
  then have nw: "sint (Amount (w_Balance w) - Amount amount) =
      sint (Amount (w_Balance w)) - sint (Amount amount)"
    by (simp add: sint_sub_no_wrap)
  have "case Debit s w amount paymentID reference of (res, w', s') \<Rightarrow>
          (\<exists>t. res = Inr t \<and>
             t_Type t = TransactionTypeDebit \<and> t_Amount t = amount \<and>
             t_WalletID t = w_ID w \<and> t_PaymentID t = Some paymentID \<and>
             t_Reference t = reference \<and>
             t_BalanceBefore t = w_Balance w \<and> t_BalanceAfter t = w_Balance w' \<and>
             (\<exists>ev. w_events w' = w_events w @ [ev] \<and>
                e_EventType ev = WalletDebitedEvent \<and> e_AggregateID ev = w_ID w \<and>
                e_Data ev = WalletDebitedData (w_ID w) (w_UserID w) paymentID (t_ID t) amount
                  (t_BalanceBefore t) (t_BalanceAfter t) reference)) \<and>
          Amount (w_Balance w') = Amount (w_Balance w) - Amount amount \<and>
          Currency (w_Balance w') = Currency (w_Balance w) \<and>
          Value (w_Version w') = Value (w_Version w) + 1 \<and>
          w_Status w' = w_Status w"
    by (rule Debit_sufficient) (use a in simp_all)
  with nw show "case Debit s w amount paymentID reference of (res, w', s') \<Rightarrow>
         (\<exists>t. res = Inr t \<and>
            t_Type t = TransactionTypeDebit \<and> t_Amount t = amount \<and>
            t_WalletID t = w_ID w \<and> t_PaymentID t = Some paymentID \<and>
            t_Reference t = reference \<and>
            t_BalanceBefore t = w_Balance w \<and> t_BalanceAfter t = w_Balance w' \<and>
            (\<exists>ev. w_events w' = w_events w @ [ev] \<and>
               e_EventType ev = WalletDebitedEvent \<and> e_AggregateID ev = w_ID w \<and>
               e_Data ev = WalletDebitedData (w_ID w) (w_UserID w) paymentID (t_ID t) amount
                 (t_BalanceBefore t) (t_BalanceAfter t) reference)) \<and>
         Amount (w_Balance w') = Amount (w_Balance w) - Amount amount \<and>
         sint (Amount (w_Balance w')) = sint (Amount (w_Balance w)) - sint (Amount amount) \<and>
         Currency (w_Balance w') = Currency (w_Balance w) \<and>
         Value (w_Version w') = Value (w_Version w) + 1 \<and>
         w_Status w' = w_Status w"
    by (simp add: split_def)
qed

theorem Debit_contract_witness:
  "(fst (Debit sys0 wallet0 (NewMoney 5000 ''USD'') ''p2'' ''order'') = Inl ''insufficient funds'' \<and>
    w_Balance (fst (snd (Debit sys0 wallet0 (NewMoney 5000 ''USD'') ''p2'' ''order''))) =
      NewMoney 1000 ''USD'') \<and>
   ((\<exists>t. fst (Debit sys0 wallet0 (NewMoney 300 ''USD'') ''p1'' ''order'') = Inr t) \<and>
    sint (Amount (w_Balance (fst (snd (Debit sys0 wallet0 (NewMoney 300 ''USD'') ''p1'' ''order''))))) = 700)"
proof -
  have st: "w_Status wallet0 = WalletStatusActive" by (simp add: wallet0_def)
  have cur: "Currency (NewMoney a ''USD'') = Currency (w_Balance wallet0)" for a
    by (simp add: wallet0_def NewMoney_def)
  have bal: "w_Balance wallet0 = NewMoney 1000 ''USD''" by (simp add: wallet0_def)
  have p1: "0 <s Amount (NewMoney 5000 ''USD'')"
    and lt: "Amount (w_Balance wallet0) <s Amount (NewMoney 5000 ''USD'')"
    and p2: "0 <s Amount (NewMoney 300 ''USD'')"
    and ge: "\<not> Amount (w_Balance wallet0) <s Amount (NewMoney 300 ''USD'')"
    by (simp_all add: wallet0_def NewMoney_def word_sless_alt)
  have s1000: "sint (Amount (NewMoney 1000 ''USD'')) = 1000"
    and s300: "sint (Amount (NewMoney 300 ''USD'')) = 300"
    by (simp_all add: NewMoney_def)
  note c1 = Debit_contract [where s = sys0 and w = wallet0 and amount = "NewMoney 5000 ''USD''"
      and paymentID = "''p2''" and reference = "''order''"]
  note c2 = Debit_contract [where s = sys0 and w = wallet0 and amount = "NewMoney 300 ''USD''"
      and paymentID = "''p1''" and reference = "''order''"]
  from c1 st cur p1 lt have
    "case Debit sys0 wallet0 (NewMoney 5000 ''USD'') ''p2'' ''order'' of (res, w', s') \<Rightarrow>
       res = Inl ''insufficient funds'' \<and> w_Balance w' = w_Balance wallet0"
    by (simp add: split_def)
  moreover from c2 st cur p2 ge have
    "case Debit sys0 wallet0 (NewMoney 300 ''USD'') ''p1'' ''order'' of (res, w', s') \<Rightarrow>
       (\<exists>t. res = Inr t) \<and>
       sint (Amount (w_Balance w')) = sint (Amount (w_Balance wallet0)) - sint (Amount (NewMoney 300 ''USD''))"
    by (auto simp add: split_def)
  ultimately show ?thesis
    by (simp add: split_def bal s1000 s300)
qed

text \<open>
  Claim C10. \<open>Debit\<close> returns a transaction exactly when \<open>CanDebit\<close> holds and the
  amount is positive, and \<open>CanDebit\<close> hands the wallet back as it received it.
\<close>

theorem Debit_iff_CanDebit:
  "((\<exists>t. fst (Debit s w m paymentID reference) = Inr t) \<longleftrightarrow>
      (fst (CanDebit w m) \<and> 0 <s Amount m)) \<and>
   snd (CanDebit w m) = w"
  by (auto simp add: Debit_success_iff CanDebit_def signed.not_less)


theorem Debit_iff_CanDebit_witness:
  "fst (CanDebit wallet0 (NewMoney 300 ''USD'')) \<and>
   (\<exists>t. fst (Debit sys0 wallet0 (NewMoney 300 ''USD'') ''p1'' ''order'') = Inr t)"
proof -
  have c: "fst (CanDebit wallet0 (NewMoney 300 ''USD''))"
    by (simp add: CanDebit_def wallet0_def NewMoney_def word_sle_eq)
  have p: "0 <s Amount (NewMoney 300 ''USD'')"
    by (simp add: NewMoney_def word_sless_alt)
  from Debit_iff_CanDebit [where s = sys0 and w = wallet0 and m = "NewMoney 300 ''USD''"
      and paymentID = "''p1''" and reference = "''order''"] c p
  show ?thesis by blast
qed

lemma Debit_balance_nonneg:
  assumes "0 \<le>s Amount (w_Balance w)"
  shows "0 \<le>s Amount (w_Balance (fst (snd (Debit s w amount paymentID reference))))"
proof (cases "\<exists>t. fst (Debit s w amount paymentID reference) = Inr t")
  case True
  then have g: "0 <s Amount amount" "\<not> Amount (w_Balance w) <s Amount amount"
    and st: "w_Status w = WalletStatusActive" "Currency amount = Currency (w_Balance w)"
    by (simp_all add: Debit_success_iff)
  from Debit_sufficient [OF st g, where s = s and paymentID = paymentID and reference = reference]
  have "Amount (w_Balance (fst (snd (Debit s w amount paymentID reference)))) =
          Amount (w_Balance w) - Amount amount" by (simp add: split_def)
  moreover have "0 \<le> sint (Amount (w_Balance w) - Amount amount)"
    using sint_sub_no_wrap [OF g] g(2) by (simp add: word_sless_alt)
  ultimately show ?thesis by (simp add: word_sle_eq)
next
  case False
  then have "w_Balance (fst (snd (Debit s w amount paymentID reference))) = w_Balance w"
    by (simp add: wallet_defs sys_defs Let_def split: if_splits)
  then show ?thesis using assms by simp
qed

lemma Credit_balance_nonneg:
  assumes "0 \<le>s Amount (w_Balance w)"
    and "op_fits s w (OpCredit amount reference paymentID)"
  shows "0 \<le>s Amount (w_Balance (fst (snd (Credit s w amount reference paymentID))))"
proof (cases "fst (Credit s w amount reference paymentID)")
  case (Inl e)
  then have "w_Balance (fst (snd (Credit s w amount reference paymentID))) = w_Balance w"
    by (simp add: wallet_defs sys_defs Let_def split: if_splits)
  then show ?thesis using assms by simp
next
  case (Inr t)
  then have fit: "sint (Amount (w_Balance w)) + sint (Amount amount) < 2 ^ 63"
    using assms(2) by simp
  from Inr have pos: "0 < sint (Amount amount)"
    by (simp add: wallet_defs Let_def word_sless_alt split: if_splits prod.splits)
  from Inr have "Amount (w_Balance (fst (snd (Credit s w amount reference paymentID)))) =
      Amount (w_Balance w) + Amount amount"
    by (simp add: wallet_defs sys_defs Let_def split: if_splits)
  moreover have "0 \<le> sint (Amount (w_Balance w) + Amount amount)"
    using sint_add_no_wrap [OF _ pos fit] assms(1) pos by (simp add: word_sle_eq)
  ultimately show ?thesis by (simp add: word_sle_eq)
qed

lemma apply_op_balance_nonneg:
  assumes "0 \<le>s Amount (w_Balance w)" "op_fits s w x"
  shows "0 \<le>s Amount (w_Balance (fst (apply_op s w x)))"
proof (cases x)
  case (OpDebit a p r)
  then show ?thesis using Debit_balance_nonneg [OF assms(1)] by simp
next
  case (OpCredit a r p)
  then show ?thesis using Credit_balance_nonneg [OF assms(1)] assms(2) by simp
next
  case OpFreeze
  then show ?thesis using assms(1) by (simp add: wallet_defs sys_defs Let_def)
next
  case OpUnfreeze
  then show ?thesis using assms(1) by (simp add: wallet_defs sys_defs Let_def)
qed

text \<open>
  Claim C6, as stated: from a non-negative balance, every sequence of \<open>Debit\<close>,
  \<open>Credit\<close>, \<open>Freeze\<close> and \<open>Unfreeze\<close> leaves the balance non-negative. It fails where
  \<open>Credit\<close>'s \<open>int64\<close> addition wraps around: a new wallet (balance 0) that is
  credited \<open>2^63 - 1\<close> and then 1 ends with the balance \<open>-2^63\<close>.
\<close>

theorem balance_nonneg_counterexample:
  "0 \<le>s Amount (w_Balance wallet_new) \<and>
   sint (Amount (w_Balance (fst (run_ops sys0 wallet_new ops_overflow)))) = - (2 ^ 63) \<and>
   \<not> 0 \<le>s Amount (w_Balance (fst (run_ops sys0 wallet_new ops_overflow)))"
  by (simp add: wallet_new_def ops_overflow_def wallet0_def sys0_def wallet_defs sys_defs Let_def
      word_sle_eq word_sless_alt)

text \<open>
  Claim C6, amended: from a non-negative balance, every sequence of \<open>Debit\<close>, \<open>Credit\<close>,
  \<open>Freeze\<close> and \<open>Unfreeze\<close> in which each applied credit keeps \<open>balance + amount\<close> at
  most \<open>2^63 - 1\<close> leaves the balance non-negative.
\<close>

theorem balance_nonneg_run_ops:
  "0 \<le>s Amount (w_Balance w) \<Longrightarrow> credits_fit s w ops \<Longrightarrow>
     0 \<le>s Amount (w_Balance (fst (run_ops s w ops)))"
proof (induction ops arbitrary: s w)
  case Nil
  then show ?case by simp
next
  case (Cons x xs)
  obtain w' s' where step: "apply_op s w x = (w', s')" by (cases "apply_op s w x")
  have "0 \<le>s Amount (w_Balance w')"
    using apply_op_balance_nonneg [of w s x] Cons.prems step by simp
  moreover have "credits_fit s' w' xs" using Cons.prems step by simp
  ultimately show ?case using Cons.IH step by simp
qed

theorem balance_nonneg_run_ops_witness:
  "0 \<le>s Amount (w_Balance wallet0) \<and> credits_fit sys0 wallet0 ops0 \<and>
   0 \<le>s Amount (w_Balance (fst (run_ops sys0 wallet0 ops0)))"
proof -
  have h1: "0 \<le>s Amount (w_Balance wallet0)"
    by (simp add: wallet0_def NewMoney_def word_sle_eq)
  have h2: "credits_fit sys0 wallet0 ops0"
    by (simp add: ops0_def wallet0_def sys0_def wallet_defs sys_defs Let_def NewVersion_def
        word_sle_eq word_sless_alt)
  from balance_nonneg_run_ops [OF h1 h2] h1 h2 show ?thesis by simp
qed

subsection \<open>Payment state machine\<close>

lemmas payment_defs = Process_def Complete_def Fail_def Cancel_def Payment_recordEvent_def
  Version_Update_def

text \<open>
  Claim C2. \<open>Process\<close> is rejected unless the status is \<open>initiated\<close>, \<open>Complete\<close>
  unless it is \<open>processing\<close>, \<open>Fail\<close> and \<open>Cancel\<close> when it is \<open>completed\<close>; a
  rejected call returns an error and leaves the payment unchanged. Every other call sets
  the target status, adds one to the version, sets \<open>UpdatedAt\<close> to the clock's reading
  and appends exactly one event: \<open>payment.processing\<close>, \<open>payment.completed\<close>,
  \<open>payment.failed\<close> or \<open>payment.cancelled\<close>.
\<close>

theorem payment_transitions:
  "(p_Status p \<noteq> PaymentStatusInitiated \<longrightarrow> rejected s p (Process s p)) \<and>
   (p_Status p = PaymentStatusInitiated \<longrightarrow>
      transitioned s p PaymentStatusProcessing PaymentProcessingEvent (Process s p)) \<and>
   (p_Status p \<noteq> PaymentStatusProcessing \<longrightarrow> rejected s p (Complete s p g t)) \<and>
   (p_Status p = PaymentStatusProcessing \<longrightarrow>
      transitioned s p PaymentStatusCompleted PaymentCompletedEvent (Complete s p g t)) \<and>
   (p_Status p = PaymentStatusCompleted \<longrightarrow> rejected s p (Fail s p reason code)) \<and>
   (p_Status p \<noteq> PaymentStatusCompleted \<longrightarrow>
      transitioned s p PaymentStatusFailed PaymentFailedEvent (Fail s p reason code)) \<and>
   (p_Status p = PaymentStatusCompleted \<longrightarrow> rejected s p (Cancel s p)) \<and>
   (p_Status p \<noteq> PaymentStatusCompleted \<longrightarrow>
      transitioned s p PaymentStatusCancelled PaymentCancelledEvent (Cancel s p))"
proof (intro conjI impI)
  show "p_Status p \<noteq> PaymentStatusInitiated \<Longrightarrow> rejected s p (Process s p)"
    by (simp add: rejected_def Process_def)
  show "p_Status p = PaymentStatusInitiated \<Longrightarrow>
      transitioned s p PaymentStatusProcessing PaymentProcessingEvent (Process s p)"
    by (simp add: transitioned_def payment_defs sys_defs Let_def)
  show "p_Status p \<noteq> PaymentStatusProcessing \<Longrightarrow> rejected s p (Complete s p g t)"
    by (simp add: rejected_def Complete_def)
  show "p_Status p = PaymentStatusProcessing \<Longrightarrow>
      transitioned s p PaymentStatusCompleted PaymentCompletedEvent (Complete s p g t)"
    by (simp add: transitioned_def payment_defs sys_defs Let_def)
  show "p_Status p = PaymentStatusCompleted \<Longrightarrow> rejected s p (Fail s p reason code)"
    by (simp add: rejected_def Fail_def)
  show "p_Status p \<noteq> PaymentStatusCompleted \<Longrightarrow>
      transitioned s p PaymentStatusFailed PaymentFailedEvent (Fail s p reason code)"
    by (simp add: transitioned_def payment_defs sys_defs Let_def)
  show "p_Status p = PaymentStatusCompleted \<Longrightarrow> rejected s p (Cancel s p)"
    by (simp add: rejected_def Cancel_def)
  show "p_Status p \<noteq> PaymentStatusCompleted \<Longrightarrow>
      transitioned s p PaymentStatusCancelled PaymentCancelledEvent (Cancel s p)"
    by (simp add: transitioned_def payment_defs sys_defs Let_def)
qed

theorem payment_transitions_witness:
  "transitioned sys0 payment0 PaymentStatusProcessing PaymentProcessingEvent (Process sys0 payment0) \<and>
   rejected sys0 payment0 (Complete sys0 payment0 ''gw1'' ''tx1'') \<and>
   transitioned sys0 payment0 PaymentStatusFailed PaymentFailedEvent
     (Fail sys0 payment0 ''declined'' ''card_declined'') \<and>
   transitioned sys0 payment0 PaymentStatusCancelled PaymentCancelledEvent (Cancel sys0 payment0)"
proof -
  have st: "p_Status payment0 = PaymentStatusInitiated" by (simp add: payment0_def)
  from payment_transitions [where s = sys0 and p = payment0 and g = "''gw1''" and t = "''tx1''"
      and reason = "''declined''" and code = "''card_declined''"]
  show ?thesis by (simp add: st)
qed

subsection \<open>Payment use cases\<close>

text \<open>
  Claim C3, as stated: on a failed debit result \<open>payment.Fail\<close> is called with the
  command's error message. It is not when that message is empty: the use case passes
  \<open>Payment operation failed\<close> instead, and this is the reason the \<open>payment.failed\<close>
  event carries.
\<close>

theorem debit_failed_message_counterexample:
  "cmd_Status cmd0 = PaymentOperationStatusFailed \<and> cmd_ErrorMessage cmd0 = [] \<and>
   pfd_Reason (e_Data (last (p_events (fst (snd
     (processDebitOperation sys0 payment_processing cmd0)))))) = ''Payment operation failed'' \<and>
   processDebitOperation sys0 payment_processing cmd0 \<noteq>
     Fail sys0 payment_processing (cmd_ErrorMessage cmd0)
       (if cmd_ErrorCode cmd0 = [] then ''payment_operation_failed'' else cmd_ErrorCode cmd0)"
  by (simp add: cmd0_def payment_processing_def payment0_def sys0_def processDebitOperation_def
      payment_defs sys_defs Let_def)

text \<open>
  Claim C3, amended: a debit-type result is routed by status. \<open>completed\<close> calls
  \<open>payment.Complete\<close> with the provider and external transaction ids; \<open>failed\<close> calls
  \<open>payment.Fail\<close> with the command's error message, or \<open>Payment operation failed\<close>
  when it is empty, and the command's error code, or \<open>payment_operation_failed\<close> when
  it is empty; \<open>cancelled\<close> calls \<open>payment.Cancel\<close>; any other status leaves the
  payment as it is. \<open>Execute\<close> hands every valid debit-type command whose payment is
  found to this routing, then saves the payment and publishes its events.
\<close>

theorem debit_operation_routing:
  "(cmd_Status cmd = PaymentOperationStatusCompleted \<longrightarrow>
      processDebitOperation s p cmd =
        Complete s p (cmd_ProviderTransactionID cmd) (cmd_ExternalTransactionID cmd)) \<and>
   (cmd_Status cmd = PaymentOperationStatusFailed \<longrightarrow>
      processDebitOperation s p cmd =
        Fail s p
          (if cmd_ErrorMessage cmd = [] then ''Payment operation failed''
           else cmd_ErrorMessage cmd)
          (if cmd_ErrorCode cmd = [] then ''payment_operation_failed''
           else cmd_ErrorCode cmd)) \<and>
   (cmd_Status cmd = PaymentOperationStatusCancelled \<longrightarrow>
      processDebitOperation s p cmd = Cancel s p) \<and>
   (cmd_Status cmd \<noteq> PaymentOperationStatusCompleted \<and>
    cmd_Status cmd \<noteq> PaymentOperationStatusFailed \<and>
    cmd_Status cmd \<noteq> PaymentOperationStatusCancelled \<longrightarrow>
      processDebitOperation s p cmd = (None, p, s)) \<and>
   (validateCommand cmd = None \<and> FindByID wd (cmd_PaymentID cmd) = Inr (Some p) \<and>
    cmd_Type cmd = PaymentOperationTypeDebit \<longrightarrow>
      ProcessPaymentOperationResult_Execute s wd cmd =
        (case processDebitOperation s p cmd of
           (Some err, p1, s1) \<Rightarrow> (Some (Wrap err ''failed to process operation''), wd, s1)
         | (None, p1, s1) \<Rightarrow>
             (case Save wd p1 of
                (Some err, wd1) \<Rightarrow> (Some (Wrap err ''failed to save payment''), wd1, s1)
              | (None, wd1) \<Rightarrow>
                  (case Publish wd1 (Payment_Events p1) of
                     (Some err, wd2) \<Rightarrow>
                       (Some (Wrap err ''failed to publish payment events''), wd2, s1)
                   | (None, wd2) \<Rightarrow> (None, wd2, s1)))))"
proof (intro conjI impI)
  show "cmd_Status cmd = PaymentOperationStatusCompleted \<Longrightarrow>
      processDebitOperation s p cmd =
        Complete s p (cmd_ProviderTransactionID cmd) (cmd_ExternalTransactionID cmd)"
    by (simp add: processDebitOperation_def)
  show "cmd_Status cmd = PaymentOperationStatusFailed \<Longrightarrow>
      processDebitOperation s p cmd =
        Fail s p
          (if cmd_ErrorMessage cmd = [] then ''Payment operation failed''
           else cmd_ErrorMessage cmd)
          (if cmd_ErrorCode cmd = [] then ''payment_operation_failed''
           else cmd_ErrorCode cmd)"
    by (simp add: processDebitOperation_def)
  show "cmd_Status cmd = PaymentOperationStatusCancelled \<Longrightarrow>
      processDebitOperation s p cmd = Cancel s p"
    by (simp add: processDebitOperation_def)
  show "cmd_Status cmd \<noteq> PaymentOperationStatusCompleted \<and>
    cmd_Status cmd \<noteq> PaymentOperationStatusFailed \<and>
    cmd_Status cmd \<noteq> PaymentOperationStatusCancelled \<Longrightarrow>
      processDebitOperation s p cmd = (None, p, s)"
    by (simp add: processDebitOperation_def)
  show "validateCommand cmd = None \<and> FindByID wd (cmd_PaymentID cmd) = Inr (Some p) \<and>
    cmd_Type cmd = PaymentOperationTypeDebit \<Longrightarrow>
      ProcessPaymentOperationResult_Execute s wd cmd =
        (case processDebitOperation s p cmd of
           (Some err, p1, s1) \<Rightarrow> (Some (Wrap err ''failed to process operation''), wd, s1)
         | (None, p1, s1) \<Rightarrow>
             (case Save wd p1 of
                (Some err, wd1) \<Rightarrow> (Some (Wrap err ''failed to save payment''), wd1, s1)
              | (None, wd1) \<Rightarrow>
                  (case Publish wd1 (Payment_Events p1) of
                     (Some err, wd2) \<Rightarrow>
                       (Some (Wrap err ''failed to publish payment events''), wd2, s1)
                   | (None, wd2) \<Rightarrow> (None, wd2, s1))))"
    by (simp add: ProcessPaymentOperationResult_Execute_def)
qed

theorem debit_operation_routing_witness:
  "processDebitOperation sys0 payment_processing (cmd_with_status PaymentOperationStatusCompleted) =
     Complete sys0 payment_processing ''gw1'' ''tx1'' \<and>
   processDebitOperation sys0 payment_processing (cmd_with_status PaymentOperationStatusFailed) =
     Fail sys0 payment_processing ''Payment operation failed'' ''payment_operation_failed'' \<and>
   processDebitOperation sys0 payment_processing (cmd_with_status PaymentOperationStatusCancelled) =
     Cancel sys0 payment_processing \<and>
   processDebitOperation sys0 payment_processing (cmd_with_status PaymentOperationStatusProcessing) =
     (None, payment_processing, sys0) \<and>
   fst (ProcessPaymentOperationResult_Execute sys0 (world_of payment_processing)
     (cmd_with_status PaymentOperationStatusProcessing)) = None"
proof -
  note r = debit_operation_routing [where s = sys0 and p = payment_processing
      and wd = "world_of payment_processing"]
  have v: "validateCommand (cmd_with_status PaymentOperationStatusProcessing) = None"
    by (simp add: validateCommand_def cmd_with_status_def cmd0_def NewMoney_def word_sle_eq)
  have f: "FindByID (world_of payment_processing)
      (cmd_PaymentID (cmd_with_status PaymentOperationStatusProcessing)) =
      Inr (Some payment_processing)"
    by (simp add: FindByID_def world_of_def cmd_with_status_def cmd0_def payment_processing_def
        payment0_def)
  have t: "cmd_Type (cmd_with_status PaymentOperationStatusProcessing) = PaymentOperationTypeDebit"
    by (simp add: cmd_with_status_def cmd0_def)
  have c1: "processDebitOperation sys0 payment_processing
      (cmd_with_status PaymentOperationStatusCompleted) =
      Complete sys0 payment_processing ''gw1'' ''tx1''"
    using r [where cmd = "cmd_with_status PaymentOperationStatusCompleted"]
    by (simp add: cmd_with_status_def cmd0_def)
  have c2: "processDebitOperation sys0 payment_processing
      (cmd_with_status PaymentOperationStatusFailed) =
      Fail sys0 payment_processing ''Payment operation failed'' ''payment_operation_failed''"
    using r [where cmd = "cmd_with_status PaymentOperationStatusFailed"]
    by (simp add: cmd_with_status_def cmd0_def)
  have c3: "processDebitOperation sys0 payment_processing
      (cmd_with_status PaymentOperationStatusCancelled) = Cancel sys0 payment_processing"
    using r [where cmd = "cmd_with_status PaymentOperationStatusCancelled"]
    by (simp add: cmd_with_status_def cmd0_def)
  have st: "cmd_Status (cmd_with_status PaymentOperationStatusProcessing) =
      PaymentOperationStatusProcessing"
    by (simp add: cmd_with_status_def)
  have c4: "processDebitOperation sys0 payment_processing
      (cmd_with_status PaymentOperationStatusProcessing) = (None, payment_processing, sys0)"
    using r [where cmd = "cmd_with_status PaymentOperationStatusProcessing"] st
    by simp
  have c5: "fst (ProcessPaymentOperationResult_Execute sys0 (world_of payment_processing)
     (cmd_with_status PaymentOperationStatusProcessing)) = None"
    using r [where cmd = "cmd_with_status PaymentOperationStatusProcessing"] v f t c4
    by (simp add: Save_def Publish_def world_of_def)
  from c1 c2 c3 c4 c5 show ?thesis by simp
qed

text \<open>
  Claim C4. A payment whose method type is \<open>debit\<close> (a type the payment method factory
  creates) reaches the default branch of \<open>ProcessPaymentMethod.Execute\<close>. The payment is
  stored as \<open>failed\<close>, but \<open>Fail(reason, errorCode)\<close> is called with its arguments in
  the other order: the published \<open>payment.failed\<close> event has the error code
  \<open>Payment method not supported\<close> and the reason \<open>unsupported_payment_method\<close>.
\<close>

theorem unsupported_method_error_code:
  "(case ProcessPaymentMethod_Execute sys0 (world_of payment_debit) ''pay1'' of
      (r, wd, s) \<Rightarrow>
        r = None \<and>
        map_option p_Status (store wd ''pay1'') = Some PaymentStatusFailed \<and>
        map e_EventType (published wd) = [PaymentProcessingEvent, PaymentFailedEvent] \<and>
        pfd_ErrorCode (e_Data (last (published wd))) = ''Payment method not supported'' \<and>
        pfd_Reason (e_Data (last (published wd))) = ''unsupported_payment_method'')"
  by (simp add: payment_debit_def payment0_def method_debit_def world_of_def sys0_def
      ProcessPaymentMethod_Execute_def FindByID_def Save_def Publish_def Payment_Events_def
      payment_defs sys_defs Let_def)

text \<open>
  Claim C5, as stated: on a failed reversal result a \<open>payment.inconsistent.state\<close> event
  is emitted. No event is published: \<open>Execute\<close> returns the error of
  \<open>processReversalOperation\<close> before it saves or publishes.
\<close>

theorem reversal_failed_counterexample:
  "cmd_Type cmd_reversal = PaymentOperationTypeReversal \<and>
   cmd_Status cmd_reversal = PaymentOperationStatusFailed \<and>
   fst (ProcessPaymentOperationResult_Execute sys0 (world_of payment_processing) cmd_reversal) =
     Some ''failed to process operation: reversal failed - payment may be in inconsistent state: declined'' \<and>
   \<not> (\<exists>ev \<in> set (published (fst (snd
         (ProcessPaymentOperationResult_Execute sys0 (world_of payment_processing) cmd_reversal)))).
        e_EventType ev = PaymentInconsistentStateEvent)"
  by (simp add: cmd_reversal_def cmd0_def payment_processing_def payment0_def world_of_def
      ProcessPaymentOperationResult_Execute_def validateCommand_def FindByID_def Wrap_def
      processReversalOperation_def NewMoney_def word_sle_eq)

text \<open>
  Claim C5, amended: on a reversal-type result with status \<open>failed\<close>, \<open>Execute\<close> returns
  an error and leaves the store and the published events as they were; for a valid
  command whose payment is found the error is \<open>failed to process operation: reversal
  failed - payment may be in inconsistent state: \<close> followed by the command's error
  message, and the payment has no new event.
\<close>

theorem reversal_failed_returns_error:
  "cmd_Type cmd = PaymentOperationTypeReversal \<Longrightarrow>
   cmd_Status cmd = PaymentOperationStatusFailed \<Longrightarrow>
     (\<exists>e. ProcessPaymentOperationResult_Execute s wd cmd = (Some e, wd, s)) \<and>
     processReversalOperation s p cmd =
       (Some (''reversal failed - payment may be in inconsistent state: '' @
          cmd_ErrorMessage cmd), p, s) \<and>
     (validateCommand cmd = None \<and> FindByID wd (cmd_PaymentID cmd) = Inr (Some p) \<longrightarrow>
        ProcessPaymentOperationResult_Execute s wd cmd =
          (Some (''failed to process operation: reversal failed - payment may be in inconsistent state: '' @
             cmd_ErrorMessage cmd), wd, s))"
  by (simp add: ProcessPaymentOperationResult_Execute_def processReversalOperation_def Wrap_def
      split: option.splits sum.splits)

theorem reversal_failed_returns_error_witness:
  "ProcessPaymentOperationResult_Execute sys0 (world_of payment_processing) cmd_reversal =
     (Some ''failed to process operation: reversal failed - payment may be in inconsistent state: declined'',
      world_of payment_processing, sys0)"
proof -
  have t: "cmd_Type cmd_reversal = PaymentOperationTypeReversal"
    and st: "cmd_Status cmd_reversal = PaymentOperationStatusFailed"
    and m: "cmd_ErrorMessage cmd_reversal = ''declined''"
    by (simp_all add: cmd_reversal_def cmd0_def)
  have v: "validateCommand cmd_reversal = None"
    by (simp add: validateCommand_def cmd_reversal_def cmd0_def NewMoney_def word_sle_eq)
  have f: "FindByID (world_of payment_processing) (cmd_PaymentID cmd_reversal) =
      Inr (Some payment_processing)"
    by (simp add: FindByID_def world_of_def cmd_reversal_def cmd0_def payment_processing_def
        payment0_def)
  from reversal_failed_returns_error [OF t st, where s = sys0
      and wd = "world_of payment_processing" and p = payment_processing] v f m
  show ?thesis by simp
qed


subsection \<open>Topic patterns\<close>

lemma HasPrefix_iff: "HasPrefix s pre \<longleftrightarrow> (\<exists>r. s = pre @ r)"
proof
  assume "HasPrefix s pre"
  then have "s = pre @ drop (length pre) s"
    by (metis HasPrefix_def append_take_drop_id)
  then show "\<exists>r. s = pre @ r" ..
next
  assume "\<exists>r. s = pre @ r"
  then show "HasPrefix s pre" by (auto simp: HasPrefix_def)
qed

lemma HasSuffix_iff: "HasSuffix s suf \<longleftrightarrow> (\<exists>r. s = r @ suf)"
proof
  assume "HasSuffix s suf"
  then have "s = take (length s - length suf) s @ suf"
    by (metis HasSuffix_def append_take_drop_id)
  then show "\<exists>r. s = r @ suf" ..
next
  assume "\<exists>r. s = r @ suf"
  then show "HasSuffix s suf" by (auto simp: HasSuffix_def)
qed

lemma Contains_iff: "Contains s substr \<longleftrightarrow> (\<exists>a b. s = a @ substr @ b)"
proof (induction s)
  case Nil
  then show ?case by auto
next
  case (Cons c cs)
  show ?case
  proof
    assume "Contains (c # cs) substr"
    then consider "HasPrefix (c # cs) substr" | "Contains cs substr" by auto
    then show "\<exists>a b. c # cs = a @ substr @ b"
    proof cases
      case 1
      then obtain r where "c # cs = substr @ r" by (auto simp: HasPrefix_iff)
      then have "c # cs = [] @ substr @ r" by simp
      then show ?thesis by blast
    next
      case 2
      then obtain a b where "cs = a @ substr @ b" using Cons.IH by auto
      then have "c # cs = (c # a) @ substr @ b" by simp
      then show ?thesis by blast
    qed
  next
    assume "\<exists>a b. c # cs = a @ substr @ b"
    then obtain a b where ab: "c # cs = a @ substr @ b" by auto
    show "Contains (c # cs) substr"
    proof (cases a)
      case Nil
      then have "HasPrefix (c # cs) substr" using ab by (auto simp: HasPrefix_iff)
      then show ?thesis by simp
    next
      case (Cons x a')
      then have "cs = a' @ substr @ b" using ab by simp
      then have "Contains cs substr" using Cons.IH by auto
      then show ?thesis by simp
    qed
  qed
qed

lemma Split_not_Nil: "Split s sep \<noteq> []"
  by (induction s) (auto split: list.splits)

lemma Join_Split: "Join (Split s sep) sep = s"
proof (induction s)
  case Nil
  then show ?case by simp
next
  case (Cons c cs)
  obtain part parts where sp: "Split cs sep = part # parts"
    using Split_not_Nil [of cs sep] by (cases "Split cs sep") auto
  show ?case
  proof (cases "c = sep")
    case True
    then show ?thesis using Cons.IH sp by simp
  next
    case False
    then show ?thesis using Cons.IH sp by (cases parts) auto
  qed
qed

lemma Split_last_suffix: "\<exists>r. s = r @ last (Split s sep)"
proof (induction s)
  case Nil
  then show ?case by simp
next
  case (Cons c cs)
  from Cons.IH obtain r where r: "cs = r @ last (Split cs sep)" by auto
  show ?case
  proof (cases "c = sep")
    case True
    then have "last (Split (c # cs) sep) = last (Split cs sep)"
      by (simp add: Split_not_Nil)
    then have "c # cs = (c # r) @ last (Split (c # cs) sep)" using r by simp
    then show ?thesis by blast
  next
    case False
    obtain part parts where sp: "Split cs sep = part # parts"
      using Split_not_Nil [of cs sep] by (cases "Split cs sep") auto
    show ?thesis
    proof (cases parts)
      case Nil
      then have "part = cs" using Join_Split [of cs sep] sp by simp
      then have "last (Split (c # cs) sep) = c # cs"
        using False sp Nil by simp
      then have "c # cs = [] @ last (Split (c # cs) sep)" by simp
      then show ?thesis by blast
    next
      case (Cons p ps)
      then have "last (Split (c # cs) sep) = last (Split cs sep)"
        using False sp by simp
      then have "c # cs = (c # r) @ last (Split (c # cs) sep)" using r by simp
      then show ?thesis by blast
    qed
  qed
qed

lemma Split_last_not_hash:
  assumes "\<not> HasSuffix pattern ''#''"
  shows "last (Split pattern CHR ''.'') \<noteq> ''#''"
proof
  assume "last (Split pattern CHR ''.'') = ''#''"
  then have "\<exists>r. pattern = r @ ''#''" using Split_last_suffix [of pattern "CHR ''.''"] by simp
  then show False using assms by (simp add: HasSuffix_iff)
qed

lemma Split_parts_no_sep: "part \<in> set (Split s sep) \<Longrightarrow> sep \<notin> set part"
proof (induction s arbitrary: part)
  case Nil
  then show ?case by simp
next
  case (Cons c cs)
  obtain p ps where sp: "Split cs sep = p # ps"
    using Split_not_Nil [of cs sep] by (cases "Split cs sep") auto
  show ?case
  proof (cases "c = sep")
    case True
    then show ?thesis using Cons by auto
  next
    case False
    then have "part = c # p \<or> part \<in> set ps" using Cons.prems sp by simp
    then show ?thesis
    proof
      assume "part = c # p"
      moreover have "sep \<notin> set p" using Cons.IH [of p] sp by simp
      ultimately show ?thesis using False by simp
    next
      assume "part \<in> set ps"
      then show ?thesis using Cons.IH [of part] sp by simp
    qed
  qed
qed

lemma matchPattern_segments:
  "patternParts = [] \<or> last patternParts \<noteq> ''#'' \<Longrightarrow>
   matchPattern patternParts topicParts =
     list_all2 (\<lambda>p t. p = ''*'' \<or> p = t) patternParts topicParts"
proof (induction patternParts topicParts rule: matchPattern.induct)
  case (1 patternParts topicParts)
  show ?case
  proof (cases patternParts)
    case Nil
    then show ?thesis by (cases topicParts) (simp_all add: matchPattern.simps)
  next
    case (Cons p ps)
    note pc = Cons
    have nothash: "\<not> (length patternParts = 1 \<and> hd patternParts = ''#'')"
      using "1.prems" pc by (cases ps) auto
    show ?thesis
    proof (cases topicParts)
      case Nil
      then show ?thesis using pc nothash by (subst matchPattern.simps) simp
    next
      case (Cons t ts)
      show ?thesis
      proof (cases "length ps = length ts")
        case False
        then have "\<not> list_all2 (\<lambda>p t. p = ''*'' \<or> p = t) patternParts topicParts"
          using pc Cons by (auto dest: list_all2_lengthD)
        moreover have "\<not> matchPattern patternParts topicParts"
          using False pc Cons nothash by (subst matchPattern.simps) simp
        ultimately show ?thesis by simp
      next
        case True
        show ?thesis
        proof (cases "p = ''*'' \<or> p = t")
          case False
          then show ?thesis
            using True pc Cons nothash by (subst matchPattern.simps) auto
        next
          case hd_ok: True
          have tl_ok: "tl patternParts = [] \<or> last (tl patternParts) \<noteq> ''#''"
            using "1.prems" pc by (cases ps) auto
          have "matchPattern (tl patternParts) (tl topicParts) =
              list_all2 (\<lambda>p t. p = ''*'' \<or> p = t) (tl patternParts) (tl topicParts)"
            using "1.IH" nothash True pc Cons hd_ok tl_ok by auto
          moreover have "matchPattern patternParts topicParts =
              matchPattern (tl patternParts) (tl topicParts)"
            using True pc Cons nothash hd_ok by (subst matchPattern.simps) auto
          ultimately show ?thesis using pc Cons hd_ok by simp
        qed
      qed
    qed
  qed
qed


lemma Metadata_Matches_iff:
  "Metadata_Matches m o_md \<longleftrightarrow>
     (\<forall>k v. entries o_md k = Some v \<longrightarrow> Metadata_index m k = v)"
  by (auto simp: Metadata_Matches_def dom_def)

lemma Metadata_Matches_superset:
  assumes "\<forall>k. entries o_md k \<noteq> Some []"
  shows "Metadata_Matches m o_md \<longleftrightarrow> entries o_md \<subseteq>\<^sub>m entries m"
proof
  assume mt: "Metadata_Matches m o_md"
  show "entries o_md \<subseteq>\<^sub>m entries m"
    unfolding map_le_def
  proof
    fix k assume k: "k \<in> dom (entries o_md)"
    then obtain v where v: "entries o_md k = Some v" by auto
    then have "v \<noteq> []" using assms by auto
    moreover have "Metadata_index m k = v" using mt v by (simp add: Metadata_Matches_iff)
    ultimately have "entries m k = Some v"
      by (auto simp: Metadata_index_def split: option.splits)
    then show "entries o_md k = entries m k" using v by simp
  qed
next
  assume le: "entries o_md \<subseteq>\<^sub>m entries m"
  show "Metadata_Matches m o_md"
    unfolding Metadata_Matches_iff
  proof (intro allI impI)
    fix k v assume v: "entries o_md k = Some v"
    then have "entries m k = Some v" using le by (metis domI map_le_def)
    then show "Metadata_index m k = v" by (simp add: Metadata_index_def)
  qed
qed

text \<open>
  Claim C7, as stated: an event matches a subscription iff its topic matches the pattern
  and its metadata is a superset of the required entries. The pattern language of
  \<open>Topic.Matches\<close> is as stated, but an event can match a subscription whose required
  metadata it does not hold. \<open>Metadata.Matches\<close> compares \<open>m[k]\<close> with the required
  value, and \<open>m[k]\<close> is the empty string at an absent key: an event with no metadata
  matches the requirement \<open>tenant = ""\<close>, which its metadata does not contain.
\<close>

theorem metadata_superset_counterexample:
  "Topic_Matches (me_Topic menta0) ''payment.created'' \<and>
   MentaEvent_Matches menta0 ''payment.created'' (Some [''tenant'' \<mapsto> []]) \<and>
   \<not> entries (Some [''tenant'' \<mapsto> []]) \<subseteq>\<^sub>m entries (me_Metadata menta0)"
proof -
  have t: "Topic_Matches (me_Topic menta0) ''payment.created''"
    by (simp add: menta0_def Topic_Matches_def HasPrefix_def HasSuffix_def matchPattern.simps)
  have m: "Metadata_Matches (me_Metadata menta0) (Some [''tenant'' \<mapsto> []])"
    by (simp add: Metadata_Matches_def Metadata_index_def entries_def menta0_def)
  have n: "\<not> entries (Some [''tenant'' \<mapsto> []]) \<subseteq>\<^sub>m entries (me_Metadata menta0)"
    by (simp add: map_le_def entries_def menta0_def)
  from t m n show ?thesis by (simp add: MentaEvent_Matches_def)
qed

text \<open>
  Claim C7, amended. \<open>Topic.Matches\<close>: the pattern \<open>#\<close> matches every topic; a pattern
  \<open>#mid#\<close> matches the topics that contain \<open>mid\<close>; a pattern with a leading \<open>#\<close> only
  matches the topics that end with the rest of it; a pattern with a trailing \<open>#\<close> only
  matches the topics that start with the rest of it; any other pattern matches the
  topics with the same number of dot-separated segments, each segment of the pattern being
  \<open>*\<close> or equal to the topic's segment at its position. An event matches a subscription
  iff its topic matches the pattern and, for every required entry \<open>(k, v)\<close>, the event's
  metadata read at \<open>k\<close> (the empty string when \<open>k\<close> is absent) is \<open>v\<close>; when no required
  value is the empty string, that is: iff the topic matches and the event's metadata is a
  superset of the required entries.
\<close>

theorem Topic_Matches_pattern_language:
  "(pattern = ''#'' \<longrightarrow> Topic_Matches t pattern) \<and>
   (pattern = ''#'' @ mid @ ''#'' \<longrightarrow>
      (Topic_Matches t pattern \<longleftrightarrow> (\<exists>a b. t = a @ mid @ b))) \<and>
   (pattern = ''#'' @ suf \<and> \<not> HasSuffix pattern ''#'' \<longrightarrow>
      (Topic_Matches t pattern \<longleftrightarrow> (\<exists>a. t = a @ suf))) \<and>
   (pattern = pre @ ''#'' \<and> \<not> HasPrefix pattern ''#'' \<longrightarrow>
      (Topic_Matches t pattern \<longleftrightarrow> (\<exists>b. t = pre @ b))) \<and>
   (\<not> HasPrefix pattern ''#'' \<and> \<not> HasSuffix pattern ''#'' \<longrightarrow>
      (Topic_Matches t pattern \<longleftrightarrow>
         list_all2 (\<lambda>p s. p = ''*'' \<or> p = s) (Split pattern CHR ''.'') (Split t CHR ''.''))) \<and>
   (MentaEvent_Matches e pattern md \<longleftrightarrow>
      Topic_Matches (me_Topic e) pattern \<and>
      (\<forall>k v. entries md k = Some v \<longrightarrow> Metadata_index (me_Metadata e) k = v)) \<and>
   ((\<forall>k. entries md k \<noteq> Some []) \<longrightarrow>
      (MentaEvent_Matches e pattern md \<longleftrightarrow>
         Topic_Matches (me_Topic e) pattern \<and> entries md \<subseteq>\<^sub>m entries (me_Metadata e)))"
proof (intro conjI impI)
  assume p: "pattern = ''#''"
  have "t = [] @ [] @ t" by simp
  then have "\<exists>a b. t = a @ [] @ b" by blast
  then have "Contains t []" by (simp only: Contains_iff)
  then show "Topic_Matches t pattern"
    using p by (simp add: Topic_Matches_def HasPrefix_def HasSuffix_def TrimPrefix_def
        TrimSuffix_def)
next
  assume p: "pattern = ''#'' @ mid @ ''#''"
  have "HasPrefix pattern ''#''" "HasSuffix pattern ''#''"
    using p by (simp_all add: HasPrefix_def HasSuffix_def)
  moreover have "TrimSuffix (TrimPrefix pattern ''#'') ''#'' = mid"
    using p by (simp add: TrimPrefix_def TrimSuffix_def HasPrefix_def HasSuffix_def)
  ultimately show "Topic_Matches t pattern \<longleftrightarrow> (\<exists>a b. t = a @ mid @ b)"
    by (simp add: Topic_Matches_def Contains_iff)
next
  assume p: "pattern = ''#'' @ suf \<and> \<not> HasSuffix pattern ''#''"
  then have hp: "HasPrefix pattern ''#''" by (simp add: HasPrefix_def)
  have ns: "\<not> HasSuffix pattern ''#''" using p by blast
  have tp: "TrimPrefix pattern ''#'' = suf"
    using p by (simp add: TrimPrefix_def HasPrefix_def)
  have "Topic_Matches t pattern = HasSuffix t suf"
    using hp ns tp by (simp add: Topic_Matches_def)
  then show "Topic_Matches t pattern \<longleftrightarrow> (\<exists>a. t = a @ suf)"
    by (simp only: HasSuffix_iff)
next
  assume p: "pattern = pre @ ''#'' \<and> \<not> HasPrefix pattern ''#''"
  then have hs: "HasSuffix pattern ''#''" by (simp add: HasSuffix_def)
  have np: "\<not> HasPrefix pattern ''#''" using p by blast
  have ts: "TrimSuffix pattern ''#'' = pre"
    using p by (simp add: TrimSuffix_def HasSuffix_def)
  have "Topic_Matches t pattern = HasPrefix t pre"
    using hs np ts by (simp add: Topic_Matches_def)
  then show "Topic_Matches t pattern \<longleftrightarrow> (\<exists>b. t = pre @ b)"
    by (simp only: HasPrefix_iff)
next
  assume p: "\<not> HasPrefix pattern ''#'' \<and> \<not> HasSuffix pattern ''#''"
  then have "last (Split pattern CHR ''.'') \<noteq> ''#''" by (simp add: Split_last_not_hash)
  then have "matchPattern (Split pattern CHR ''.'') (Split t CHR ''.'') =
      list_all2 (\<lambda>p s. p = ''*'' \<or> p = s) (Split pattern CHR ''.'') (Split t CHR ''.'')"
    by (intro matchPattern_segments) simp
  then show "Topic_Matches t pattern \<longleftrightarrow>
      list_all2 (\<lambda>p s. p = ''*'' \<or> p = s) (Split pattern CHR ''.'') (Split t CHR ''.'')"
    using p by (simp add: Topic_Matches_def)
next
  show "MentaEvent_Matches e pattern md \<longleftrightarrow>
      Topic_Matches (me_Topic e) pattern \<and>
      (\<forall>k v. entries md k = Some v \<longrightarrow> Metadata_index (me_Metadata e) k = v)"
    by (simp add: MentaEvent_Matches_def Metadata_Matches_iff)
next
  assume "\<forall>k. entries md k \<noteq> Some []"
  then show "MentaEvent_Matches e pattern md \<longleftrightarrow>
      Topic_Matches (me_Topic e) pattern \<and> entries md \<subseteq>\<^sub>m entries (me_Metadata e)"
    by (simp add: MentaEvent_Matches_def Metadata_Matches_superset)
qed

theorem Topic_Matches_pattern_language_witness:
  "Topic_Matches ''payment.created'' ''#'' \<and>
   Topic_Matches ''payment.created'' ''#ment.cr#'' \<and>
   Topic_Matches ''payment.created'' ''#created'' \<and>
   Topic_Matches ''payment.created'' ''payment#'' \<and>
   Topic_Matches ''payment.created'' ''payment.*'' \<and>
   \<not> Topic_Matches ''payment.created.x'' ''payment.*'' \<and>
   MentaEvent_Matches menta1 ''payment.*'' (Some [''tenant'' \<mapsto> ''acme''])"
proof -
  note L = Topic_Matches_pattern_language [where e = menta1
      and md = "Some [''tenant'' \<mapsto> ''acme'']"]
  have w1: "Topic_Matches ''payment.created'' ''#''"
    using L [where pattern = "''#''" and t = "''payment.created''" and mid = "[]" and suf = "[]"
        and pre = "[]"] by simp
  have "''payment.created'' = ''pay'' @ ''ment.cr'' @ ''eated''" by simp
  then have "\<exists>a b. ''payment.created'' = a @ ''ment.cr'' @ b" by blast
  then have w2: "Topic_Matches ''payment.created'' ''#ment.cr#''"
    using L [where pattern = "''#ment.cr#''" and mid = "''ment.cr''" and t = "''payment.created''"
        and suf = "[]" and pre = "[]"]
    by simp
  have "''payment.created'' = ''payment.'' @ ''created''" by simp
  then have "\<exists>a. ''payment.created'' = a @ ''created''" by blast
  then have w3: "Topic_Matches ''payment.created'' ''#created''"
    using L [where pattern = "''#created''" and suf = "''created''" and t = "''payment.created''"
        and mid = "[]" and pre = "[]"]
    by (simp add: HasSuffix_def)
  have "''payment.created'' = ''payment'' @ ''.created''" by simp
  then have "\<exists>b. ''payment.created'' = ''payment'' @ b" by blast
  then have w4: "Topic_Matches ''payment.created'' ''payment#''"
    using L [where pattern = "''payment#''" and pre = "''payment''" and t = "''payment.created''"
        and mid = "[]" and suf = "[]"]
    by (simp add: HasPrefix_def)
  have w5: "Topic_Matches ''payment.created'' ''payment.*''"
    using L [where pattern = "''payment.*''" and t = "''payment.created''" and mid = "[]"
        and suf = "[]" and pre = "[]"]
    by (simp add: HasPrefix_def HasSuffix_def)
  have w6: "\<not> Topic_Matches ''payment.created.x'' ''payment.*''"
    using L [where pattern = "''payment.*''" and t = "''payment.created.x''" and mid = "[]"
        and suf = "[]" and pre = "[]"]
    by (simp add: HasPrefix_def HasSuffix_def)
  have le: "entries (Some [''tenant'' \<mapsto> ''acme'']) \<subseteq>\<^sub>m entries (me_Metadata menta1)"
    by (simp add: map_le_def entries_def menta1_def)
  have ne: "\<forall>k. entries (Some [''tenant'' \<mapsto> ''acme'']) k \<noteq> Some []"
    by (simp add: entries_def)
  have tp: "me_Topic menta1 = ''payment.created''" by (simp add: menta1_def menta0_def)
  note sup = L [where pattern = "''payment.*''" and t = "''payment.created''" and mid = "[]"
      and suf = "[]" and pre = "[]", THEN conjunct2, THEN conjunct2, THEN conjunct2,
      THEN conjunct2, THEN conjunct2, THEN conjunct2, THEN mp, OF ne]
  have w7: "MentaEvent_Matches menta1 ''payment.*'' (Some [''tenant'' \<mapsto> ''acme''])"
    unfolding sup tp using w5 le by (intro conjI)
  from w1 w2 w3 w4 w5 w6 w7 show ?thesis by simp
qed


subsection \<open>Envelope round trip\<close>











subsection \<open>Publisher batches\<close>

lemma splitToChunks_loop_concat:
  "0 < chunkSize \<Longrightarrow>
   concat (splitToChunks_loop items chunkSize i chunks) = concat chunks @ drop i items"
proof (induction items chunkSize i chunks rule: splitToChunks_loop.induct)
  case (1 items chunkSize i chunks)
  show ?case
  proof (cases "i < length items")
    case False
    then show ?thesis by (subst splitToChunks_loop.simps) simp
  next
    case True
    define e where "e = (if i + chunkSize > length items then length items else i + chunkSize)"
    have step: "splitToChunks_loop items chunkSize i chunks =
        splitToChunks_loop items chunkSize (i + chunkSize)
          (chunks @ [take (e - i) (drop i items)])"
      using True "1.prems" by (subst splitToChunks_loop.simps) (simp add: e_def Let_def)
    have ih: "concat (splitToChunks_loop items chunkSize (i + chunkSize)
          (chunks @ [take (e - i) (drop i items)])) =
        concat (chunks @ [take (e - i) (drop i items)]) @ drop (i + chunkSize) items"
      using "1.IH" [of e] True "1.prems" e_def by simp
    have piece: "take (e - i) (drop i items) @ drop (i + chunkSize) items = drop i items"
    proof (cases "i + chunkSize > length items")
      case True
      then show ?thesis by (simp add: e_def)
    next
      case False
      then have "e - i = chunkSize" by (simp add: e_def)
      moreover have "drop (i + chunkSize) items = drop chunkSize (drop i items)"
        by (simp add: add.commute)
      moreover have "take chunkSize (drop i items) @ drop chunkSize (drop i items) = drop i items"
        by (rule append_take_drop_id)
      ultimately show ?thesis by (simp only:)
    qed
    show ?thesis using step ih piece by simp
  qed
qed

lemma splitToChunks_loop_sizes:
  "0 < chunkSize \<Longrightarrow> b \<in> set (splitToChunks_loop items chunkSize i chunks) \<Longrightarrow>
   b \<in> set chunks \<or> (0 < length b \<and> length b \<le> chunkSize)"
proof (induction items chunkSize i chunks rule: splitToChunks_loop.induct)
  case (1 items chunkSize i chunks)
  show ?case
  proof (cases "i < length items")
    case False
    then show ?thesis using "1.prems" by (subst (asm) splitToChunks_loop.simps) simp
  next
    case True
    define e where "e = (if i + chunkSize > length items then length items else i + chunkSize)"
    have step: "splitToChunks_loop items chunkSize i chunks =
        splitToChunks_loop items chunkSize (i + chunkSize)
          (chunks @ [take (e - i) (drop i items)])"
      using True "1.prems" by (subst splitToChunks_loop.simps) (simp add: e_def Let_def)
    have "b \<in> set (chunks @ [take (e - i) (drop i items)]) \<or>
        (0 < length b \<and> length b \<le> chunkSize)"
      using "1.IH" [of e] True "1.prems" step e_def by simp
    moreover have "0 < length (take (e - i) (drop i items))"
      using True "1.prems"(1) by (simp add: e_def)
    moreover have "length (take (e - i) (drop i items)) \<le> chunkSize"
      by (auto simp: e_def)
    ultimately show ?thesis by auto
  qed
qed

lemma splitToChunks_batches:
  "\<exists>bs. splitToChunks evts maxBatchSize = Some bs \<and> concat bs = evts \<and>
     (\<forall>b \<in> set bs. 0 < length b \<and> length b \<le> 10)"
proof (cases "evts = []")
  case True
  then show ?thesis by (simp add: splitToChunks_def)
next
  case False
  have s: "splitToChunks evts maxBatchSize = Some (splitToChunks_loop evts 10 0 [])"
    using False by (simp add: splitToChunks_def)
  have c: "concat (splitToChunks_loop evts 10 0 []) = evts"
    using splitToChunks_loop_concat [of 10 evts 0 "[]"] by simp
  have z: "\<forall>b \<in> set (splitToChunks_loop evts 10 0 []). 0 < length b \<and> length b \<le> 10"
    using splitToChunks_loop_sizes [of 10 _ evts 0 "[]"] by auto
  from s c z show ?thesis by simp
qed

lemma batchPublish_answer:
  "sns_answer (snd (batchPublish c sns cancelled events)) = sns_answer sns"
  by (simp add: batchPublish_def PublishBatch_def split: sum.splits option.splits)

lemma batchPublish_error:
  "fst (batchPublish c sns False events) = batch_error c (sns_answer sns) events"
  by (simp add: batch_error_def batchPublish_def PublishBatch_def split: sum.splits option.splits)

lemma errgroup_Wait_keeps_error:
  "fst (errgroup_Wait c sns (Some e) order batchEvents) = Some e"
proof (induction order arbitrary: sns)
  case Nil
  then show ?case by simp
next
  case (Cons i order)
  then show ?case by (simp add: split_def)
qed

lemma errgroup_Wait_first_error:
  assumes "\<forall>i \<in> set order. i < length batchEvents"
    and "k < length order"
    and "batch_error c (sns_answer sns) (batchEvents ! (order ! k)) = Some e"
    and "\<forall>j < k. batch_error c (sns_answer sns) (batchEvents ! (order ! j)) = None"
  shows "fst (errgroup_Wait c sns None order batchEvents) = Some e"
  using assms
proof (induction order arbitrary: sns k)
  case Nil
  then show ?case by simp
next
  case (Cons i order)
  obtain r sns1 where bp: "batchPublish c sns False (batchEvents ! i) = (r, sns1)"
    by (cases "batchPublish c sns False (batchEvents ! i)")
  have r: "r = batch_error c (sns_answer sns) (batchEvents ! i)"
    using batchPublish_error [of c sns "batchEvents ! i"] bp by simp
  have a1: "sns_answer sns1 = sns_answer sns"
    using batchPublish_answer [of c sns False "batchEvents ! i"] bp by simp
  have i: "i < length batchEvents" using Cons.prems(1) by simp
  have unfold: "errgroup_Wait c sns None (i # order) batchEvents =
      errgroup_Wait c sns1 r order batchEvents"
    using i bp by simp
  show ?case
  proof (cases k)
    case 0
    then have "r = Some e" using Cons.prems(3) r by simp
    then show ?thesis using unfold errgroup_Wait_keeps_error by simp
  next
    case (Suc k')
    have "batch_error c (sns_answer sns) (batchEvents ! ((i # order) ! 0)) = None"
      using Cons.prems(4) Suc by blast
    then have rn: "r = None" using r by simp
    have "fst (errgroup_Wait c sns1 None order batchEvents) = Some e"
    proof (rule Cons.IH [where k = k'])
      show "\<forall>i \<in> set order. i < length batchEvents" using Cons.prems(1) by simp
      show "k' < length order" using Cons.prems(2) Suc by simp
      show "batch_error c (sns_answer sns1) (batchEvents ! (order ! k')) = Some e"
        using Cons.prems(3) Suc a1 by simp
      show "\<forall>j < k'. batch_error c (sns_answer sns1) (batchEvents ! (order ! j)) = None"
      proof (intro allI impI)
        fix j assume "j < k'"
        then have "Suc j < k" using Suc by simp
        then have "batch_error c (sns_answer sns) (batchEvents ! ((i # order) ! Suc j)) = None"
          using Cons.prems(4) by blast
        then show "batch_error c (sns_answer sns1) (batchEvents ! (order ! j)) = None"
          using a1 by simp
      qed
    qed
    then show ?thesis using unfold rn by simp
  qed
qed

lemma errgroup_Wait_no_error:
  assumes "\<forall>i \<in> set order. i < length batchEvents"
    and "\<forall>i \<in> set order. batch_error c (sns_answer sns) (batchEvents ! i) = None"
  shows "fst (errgroup_Wait c sns None order batchEvents) = None"
  using assms
proof (induction order arbitrary: sns)
  case Nil
  then show ?case by simp
next
  case (Cons i order)
  obtain r sns1 where bp: "batchPublish c sns False (batchEvents ! i) = (r, sns1)"
    by (cases "batchPublish c sns False (batchEvents ! i)")
  have r: "r = None"
    using batchPublish_error [of c sns "batchEvents ! i"] bp Cons.prems(2) by simp
  have a1: "sns_answer sns1 = sns_answer sns"
    using batchPublish_answer [of c sns False "batchEvents ! i"] bp by simp
  have "fst (errgroup_Wait c sns1 None order batchEvents) = None"
    using Cons.IH [of sns1] Cons.prems a1 by simp
  then show ?case using bp r Cons.prems(1) by simp
qed


lemma errgroup_Wait_no_batches: "errgroup_Wait c sns err order [] = (err, sns)"
  by (induction order) simp_all

text \<open>
  Claim C8. \<open>Publish\<close> of no event returns success and the broker is not called. For
  any events, \<open>splitToChunks\<close> returns batches whose concatenation is the input, each
  with at least one and at most 10 events, and \<open>Publish\<close> returns what the group of
  their goroutines returns. Whatever the order in which the goroutines end: the error
  of the first batch to fail is the error \<open>Publish\<close> returns, and when no batch fails
  \<open>Publish\<close> returns no error.
\<close>

theorem SNS_Publish_batches:
  "SNS_Publish c sns order [] = Some (None, sns) \<and>
   (\<exists>bs. splitToChunks evts maxBatchSize = Some bs \<and> concat bs = evts \<and>
      (\<forall>b \<in> set bs. 0 < length b \<and> length b \<le> 10) \<and>
      SNS_Publish c sns order evts = Some (errgroup_Wait c sns None order bs) \<and>
      (distinct order \<and> set order = {..<length bs} \<longrightarrow>
         (\<forall>k e. k < length order \<and>
            batch_error c (sns_answer sns) (bs ! (order ! k)) = Some e \<and>
            (\<forall>j<k. batch_error c (sns_answer sns) (bs ! (order ! j)) = None) \<longrightarrow>
            (\<exists>sns'. SNS_Publish c sns order evts = Some (Some e, sns'))) \<and>
         ((\<forall>i<length bs. batch_error c (sns_answer sns) (bs ! i) = None) \<longrightarrow>
            (\<exists>sns'. SNS_Publish c sns order evts = Some (None, sns')))))"
proof
  show "SNS_Publish c sns order [] = Some (None, sns)" by (simp add: SNS_Publish_def)
next
  from splitToChunks_batches [of evts] obtain bs where
    s: "splitToChunks evts maxBatchSize = Some bs" and c: "concat bs = evts" and
    z: "\<forall>b \<in> set bs. 0 < length b \<and> length b \<le> 10"
    by blast
  have p: "SNS_Publish c sns order evts = Some (errgroup_Wait c sns None order bs)"
  proof (cases "evts = []")
    case True
    then have "bs = []" using s by (simp add: splitToChunks_def)
    then show ?thesis using True by (simp add: SNS_Publish_def errgroup_Wait_no_batches)
  next
    case False
    then show ?thesis using s by (simp add: SNS_Publish_def)
  qed
  have first: "\<exists>sns'. SNS_Publish c sns order evts = Some (Some e, sns')"
    if o: "distinct order \<and> set order = {..<length bs}"
      and k: "k < length order \<and>
        batch_error c (sns_answer sns) (bs ! (order ! k)) = Some e \<and>
        (\<forall>j<k. batch_error c (sns_answer sns) (bs ! (order ! j)) = None)"
    for k e
  proof -
    have "\<forall>i \<in> set order. i < length bs" using o by auto
    then have "fst (errgroup_Wait c sns None order bs) = Some e"
      using k by (intro errgroup_Wait_first_error [where k = k]) auto
    then have "errgroup_Wait c sns None order bs = (Some e, snd (errgroup_Wait c sns None order bs))"
      by (metis prod.collapse)
    then show ?thesis using p by auto
  qed
  have none: "\<exists>sns'. SNS_Publish c sns order evts = Some (None, sns')"
    if o: "distinct order \<and> set order = {..<length bs}"
      and a: "\<forall>i<length bs. batch_error c (sns_answer sns) (bs ! i) = None"
  proof -
    have v: "\<forall>i \<in> set order. i < length bs" using o by auto
    then have "\<forall>i \<in> set order. batch_error c (sns_answer sns) (bs ! i) = None"
      using a by auto
    then have "fst (errgroup_Wait c sns None order bs) = None"
      using v by (intro errgroup_Wait_no_error) auto
    then have "errgroup_Wait c sns None order bs = (None, snd (errgroup_Wait c sns None order bs))"
      by (metis prod.collapse)
    then show ?thesis using p by auto
  qed
  show "\<exists>bs. splitToChunks evts maxBatchSize = Some bs \<and> concat bs = evts \<and>
      (\<forall>b \<in> set bs. 0 < length b \<and> length b \<le> 10) \<and>
      SNS_Publish c sns order evts = Some (errgroup_Wait c sns None order bs) \<and>
      (distinct order \<and> set order = {..<length bs} \<longrightarrow>
         (\<forall>k e. k < length order \<and>
            batch_error c (sns_answer sns) (bs ! (order ! k)) = Some e \<and>
            (\<forall>j<k. batch_error c (sns_answer sns) (bs ! (order ! j)) = None) \<longrightarrow>
            (\<exists>sns'. SNS_Publish c sns order evts = Some (Some e, sns'))) \<and>
         ((\<forall>i<length bs. batch_error c (sns_answer sns) (bs ! i) = None) \<longrightarrow>
            (\<exists>sns'. SNS_Publish c sns order evts = Some (None, sns'))))"
    using s c z p first none by blast
qed

theorem SNS_Publish_batches_witness:
  "splitToChunks evts12 maxBatchSize = Some [take 10 evts12, drop 10 evts12] \<and>
   (\<exists>sns'. SNS_Publish json0 sns0 [1, 0] evts12 =
      Some (Some ''failed to publish batch to SNS: timeout'', sns'))"
proof -
  have sp: "splitToChunks evts12 maxBatchSize = Some [take 10 evts12, drop 10 evts12]"
    by (simp add: splitToChunks_def evts12_def splitToChunks_loop.simps)
  from SNS_Publish_batches [of json0 sns0 "[1, 0]" evts12] obtain bs where
    s: "splitToChunks evts12 maxBatchSize = Some bs" and
    f: "distinct [1, 0::nat] \<and> set [1, 0::nat] = {..<length bs} \<longrightarrow>
         (\<forall>k e. k < length [1, 0::nat] \<and>
            batch_error json0 (sns_answer sns0) (bs ! ([1, 0] ! k)) = Some e \<and>
            (\<forall>j<k. batch_error json0 (sns_answer sns0) (bs ! ([1, 0] ! j)) = None) \<longrightarrow>
            (\<exists>sns'. SNS_Publish json0 sns0 [1, 0] evts12 = Some (Some e, sns')))"
    by blast
  have bs: "bs = [take 10 evts12, drop 10 evts12]" using s sp by simp
  have o: "distinct [1, 0::nat] \<and> set [1, 0::nat] = {..<length bs}"
    by (auto simp: bs)
  have e: "batch_error json0 (sns_answer sns0) (bs ! ([1, 0] ! 0)) =
      Some ''failed to publish batch to SNS: timeout''"
    by (simp add: bs evts12_def batch_error_def batchPublish_def PublishBatch_def
        MarshalPayload_def menta_raw_def json0_def sns0_def Wrap_def)
  from f o e have "\<exists>sns'. SNS_Publish json0 sns0 [1, 0] evts12 =
      Some (Some ''failed to publish batch to SNS: timeout'', sns')"
    by (metis length_Cons not_less0 zero_less_Suc)
  with sp show ?thesis by simp
qed


end
